theory Spec2Isabelle
  imports Main "HOL-Library.AList" "HOL-Library.Sublist"
begin

section \<open>JavaScript values used by the build pipeline\<close>

text \<open>
  The configuration parser, the fingerprint cache and the version-bump engine of
  \<^verbatim>\<open>app-build\<close> are TypeScript. Their functions are embedded as HOL functions:
  an interface is a record, a union of string literals is a datatype or a string, an
  optional field (\<^verbatim>\<open>undefined\<close>) is an \<open>option\<close>, and a \<^verbatim>\<open>throw\<close> is the
  left injection of a sum.
\<close>

datatype error = Error string | TypeError

text \<open>
  A parsed JSON document. An object keeps its own keys in the order of
  \<^verbatim>\<open>Object.keys\<close>. Numbers are the integer-valued ones (see the section on numbers).
  A file is modelled by the value that \<^verbatim>\<open>JSON.parse\<close> makes of its text and that
  \<^verbatim>\<open>JSON.stringify\<close> writes back.
\<close>

datatype json =
    JNull
  | JBool bool
  | JNum int
  | JStr string
  | JArr "json list"
  | JObj "(string \<times> json) list"

text \<open>\<^verbatim>\<open>Array.prototype.join\<close> on strings.\<close>

fun join :: "string \<Rightarrow> string list \<Rightarrow> string" where
  "join sep [] = []"
| "join sep [x] = x"
| "join sep (x # y # ys) = x @ sep @ join sep (y # ys)"

definition quoted :: "string \<Rightarrow> string" where
  "quoted s = CHR 0x22 # s @ [CHR 0x22]"

text \<open>
  Property lookup \<^verbatim>\<open>obj[key]\<close> on an ordinary object: an own key is found first;
  a name that is not an own key is looked up on \<^verbatim>\<open>Object.prototype\<close>, whose
  members are functions (and \<^verbatim>\<open>__proto__\<close>, the prototype object itself), all truthy.
\<close>

definition object_prototype_keys :: "string list" where
  "object_prototype_keys =
     [''constructor'', ''__defineGetter__'', ''__defineSetter__'', ''hasOwnProperty'',
      ''__lookupGetter__'', ''__lookupSetter__'', ''isPrototypeOf'',
      ''propertyIsEnumerable'', ''toString'', ''valueOf'', ''__proto__'',
      ''toLocaleString'']"

datatype 'a property = Undefined | Own 'a | Inherited

definition get_property :: "(string \<times> 'a) list \<Rightarrow> string \<Rightarrow> 'a property" where
  "get_property obj key =
     (case map_of obj key of
        Some v \<Rightarrow> Own v
      | None \<Rightarrow> if key \<in> set object_prototype_keys then Inherited else Undefined)"

section \<open>Configuration: schema types and defaults\<close>

datatype platform = Ios | Android

definition platform_name :: "platform \<Rightarrow> string" where
  "platform_name p = (case p of Ios \<Rightarrow> ''ios'' | Android \<Rightarrow> ''android'')"

text \<open>
  \<^verbatim>\<open>IosBuildConfig\<close>: the schema makes \<open>scheme\<close> a string; the object that
  \<^verbatim>\<open>mergeActionInputs\<close> synthesises when there is no configuration file holds
  \<^verbatim>\<open>scheme: undefined\<close>, so the field is optional here.
\<close>

record IosBuildConfig =
  scheme :: "string option"
  buildConfiguration :: string
  exportMethod :: string

record AndroidBuildConfig =
  buildType :: string
  aab :: "bool option"

record BuildProfile =
  profile_ios :: "IosBuildConfig option"
  profile_android :: "AndroidBuildConfig option"

record SubmitIos =
  ascAppId :: string

record SubmitAndroid =
  packageName :: string
  track :: string

record SubmitConfig =
  submit_ios :: "SubmitIos option"
  submit_android :: "SubmitAndroid option"

record IosSigningMatch =
  match_type :: "string option"
  match_storage :: "string option"
  gitUrl :: "string option"
  readonly :: "bool option"

datatype IosSigning = SigningManual | SigningMatch IosSigningMatch

datatype AndroidSigning = AndroidSigningManual

record SigningConfig =
  signing_ios :: "IosSigning option"
  signing_android :: "AndroidSigning option"

record UpdatesStorage =
  storage_type :: string
  bucket :: "string option"
  region :: "string option"
  storage_prefix :: "string option"
  uploadCommand :: "string option"

record UpdatesConfig =
  enabled :: bool
  url :: "string option"
  storage :: "UpdatesStorage option"

record VersionConfig =
  autoIncrement :: bool
  source :: "string option"
  strategy :: "string option"
  gitTagPattern :: "string option"

text \<open>
  \<^verbatim>\<open>AppBuildConfig\<close>. The schema requires \<open>build\<close>, but \<^verbatim>\<open>parseConfigFile\<close>
  returns \<^verbatim>\<open>{} as AppBuildConfig\<close> when the file does not exist, so \<open>build\<close> can be
  undefined at run time.
\<close>

record AppBuildConfig =
  build :: "(string \<times> BuildProfile) list option"
  config_submit :: "SubmitConfig option"
  config_signing :: "SigningConfig option"
  config_updates :: "UpdatesConfig option"
  config_version :: "VersionConfig option"

definition DEFAULT_PROFILE :: string where
  "DEFAULT_PROFILE = ''production''"

definition DEFAULT_NODE_VERSION :: string where
  "DEFAULT_NODE_VERSION = ''20''"

definition DEFAULT_FASTLANE_VERSION :: string where
  "DEFAULT_FASTLANE_VERSION = ''latest''"

definition DEFAULT_IOS_EXPORT_METHOD :: string where
  "DEFAULT_IOS_EXPORT_METHOD = ''app-store''"

definition DEFAULT_IOS_BUILD_CONFIGURATION :: string where
  "DEFAULT_IOS_BUILD_CONFIGURATION = ''Release''"

definition DEFAULT_ANDROID_BUILD_TYPE :: string where
  "DEFAULT_ANDROID_BUILD_TYPE = ''release''"

definition DEFAULT_ANDROID_AAB :: bool where
  "DEFAULT_ANDROID_AAB = True"

definition DEFAULT_VERSION_SOURCE :: string where
  "DEFAULT_VERSION_SOURCE = ''app.json''"

section \<open>Configuration: action inputs and the resolved configuration\<close>

text \<open>\<^verbatim>\<open>ActionInputs\<close>, the inputs of the action; its fields carry the prefix \<open>in_\<close>.\<close>

record ActionInputs =
  in_platform :: platform
  in_profile :: string
  in_submit :: bool
  in_ota :: bool
  in_versionBump :: bool
  in_cache :: bool
  in_fingerprint :: bool
  in_skipPrebuild :: bool
  in_prebuildClean :: bool
  in_nodeVersion :: string
  in_fastlaneVersion :: string
  in_xcodeVersion :: "string option"
  in_versionStrategy :: "string option"
  in_versionGitTagPattern :: "string option"
  in_iosScheme :: "string option"
  in_iosBuildConfiguration :: "string option"
  in_iosCertificateP12 :: "string option"
  in_iosCertificatePassword :: "string option"
  in_iosProvisioningProfile :: "string option"
  in_iosExtensionProfiles :: "string option"
  in_matchPassword :: "string option"
  in_matchGitPrivateKey :: "string option"
  in_ascApiKeyId :: "string option"
  in_ascApiIssuerId :: "string option"
  in_ascApiKeyP8 :: "string option"
  in_androidKeystore :: "string option"
  in_androidKeystorePassword :: "string option"
  in_androidKeyAlias :: "string option"
  in_androidKeyPassword :: "string option"
  in_googlePlayServiceAccount :: "string option"

record Credentials =
  iosCertificateP12 :: "string option"
  iosCertificatePassword :: "string option"
  iosProvisioningProfile :: "string option"
  iosExtensionProfiles :: "string option"
  matchPassword :: "string option"
  matchGitPrivateKey :: "string option"
  ascApiKeyId :: "string option"
  ascApiIssuerId :: "string option"
  ascApiKeyP8 :: "string option"
  androidKeystore :: "string option"
  androidKeystorePassword :: "string option"
  androidKeyAlias :: "string option"
  androidKeyPassword :: "string option"
  googlePlayServiceAccount :: "string option"

record ResolvedConfig =
  platform :: platform
  profile :: string
  ios :: "IosBuildConfig option"
  android :: "AndroidBuildConfig option"
  submit :: bool
  ota :: bool
  versionBump :: bool
  cache :: bool
  fingerprint :: bool
  skipPrebuild :: bool
  prebuildClean :: bool
  nodeVersion :: string
  fastlaneVersion :: string
  xcodeVersion :: "string option"
  submitConfig :: "SubmitConfig option"
  signingConfig :: "SigningConfig option"
  updatesConfig :: "UpdatesConfig option"
  versionConfig :: "VersionConfig option"
  versionStrategy :: "string option"
  versionGitTagPattern :: "string option"
  credentials :: Credentials

text \<open>
  JavaScript truthiness of the values that the parser tests: a string is falsy when it is
  empty, an optional string also when it is undefined. \<open>or_default\<close> is \<^verbatim>\<open>s || d\<close>.
\<close>

definition truthy :: "string option \<Rightarrow> bool" where
  "truthy s = (case s of None \<Rightarrow> False | Some t \<Rightarrow> t \<noteq> [])"

definition or_default :: "string \<Rightarrow> string \<Rightarrow> string" where
  "or_default s d = (if s = [] then d else s)"

section \<open>getProfileConfig\<close>

text \<open>The result type \<^verbatim>\<open>IosBuildConfig | AndroidBuildConfig\<close>.\<close>

datatype PlatformConfig = IosConfig IosBuildConfig | AndroidConfig AndroidBuildConfig

definition platformConfig_of :: "BuildProfile \<Rightarrow> platform \<Rightarrow> PlatformConfig option" where
  "platformConfig_of p pf =
     (case pf of
        Ios \<Rightarrow> map_option IosConfig (profile_ios p)
      | Android \<Rightarrow> map_option AndroidConfig (profile_android p))"

text \<open>
  \<^verbatim>\<open>[profile.ios ? 'ios' : null, profile.android ? 'android' : null].filter(Boolean)\<close>
\<close>

definition configured_platforms :: "BuildProfile \<Rightarrow> string list" where
  "configured_platforms p =
     (case profile_ios p of None \<Rightarrow> [] | Some _ \<Rightarrow> [''ios'']) @
     (case profile_android p of None \<Rightarrow> [] | Some _ \<Rightarrow> [''android''])"

definition profile_not_found :: "string \<Rightarrow> string list \<Rightarrow> error" where
  "profile_not_found profileName names =
     Error (''Build profile '' @ quoted profileName @ '' not found. Available profiles: ''
            @ join '', '' names)"

definition platform_not_configured :: "platform \<Rightarrow> string \<Rightarrow> string list \<Rightarrow> error" where
  "platform_not_configured pf profileName names =
     Error (''Platform '' @ quoted (platform_name pf) @ '' is not configured in profile ''
            @ quoted profileName @ ''. '' @ ''Configured platforms: ''
            @ or_default (join '', '' names) ''none'')"

text \<open>
  \<^verbatim>\<open>getProfileConfig(config, profileName, platform)\<close>. The profile is read with
  \<^verbatim>\<open>config.build[profileName]\<close>, a property lookup: for a name that \<open>build\<close> does
  not own but \<^verbatim>\<open>Object.prototype\<close> has, the value is an inherited member, which is
  truthy and has neither an \<open>ios\<close> nor an \<open>android\<close> property.
\<close>

definition getProfileConfig ::
    "AppBuildConfig \<Rightarrow> string \<Rightarrow> platform \<Rightarrow> error + PlatformConfig option" where
  "getProfileConfig config profileName pf =
     (case build config of
        None \<Rightarrow> Inr None
      | Some b \<Rightarrow>
          (case get_property b profileName of
             Undefined \<Rightarrow> Inl (profile_not_found profileName (map fst b))
           | Own p \<Rightarrow>
               (case platformConfig_of p pf of
                  None \<Rightarrow> Inl (platform_not_configured pf profileName (configured_platforms p))
                | Some pc \<Rightarrow> Inr (Some pc))
           | Inherited \<Rightarrow> Inl (platform_not_configured pf profileName [])))"

section \<open>mergeActionInputs\<close>

definition default_ios :: IosBuildConfig where
  "default_ios =
     \<lparr>scheme = None,
      buildConfiguration = DEFAULT_IOS_BUILD_CONFIGURATION,
      exportMethod = DEFAULT_IOS_EXPORT_METHOD\<rparr>"

definition default_android :: AndroidBuildConfig where
  "default_android =
     \<lparr>buildType = DEFAULT_ANDROID_BUILD_TYPE, aab = Some DEFAULT_ANDROID_AAB\<rparr>"

text \<open>
  \<^verbatim>\<open>{ ...((platformConfig as IosBuildConfig | undefined) ?? { defaults }) }\<close>, followed by
  the two overrides from the inputs. For the platform \<open>ios\<close>, \<^verbatim>\<open>getProfileConfig\<close>
  only ever returns an \<open>IosConfig\<close> or undefined (lemma \<open>getProfileConfig_Ios\<close>).
\<close>

definition resolve_ios :: "PlatformConfig option \<Rightarrow> ActionInputs \<Rightarrow> IosBuildConfig" where
  "resolve_ios platformConfig inputs =
     (let base = (case platformConfig of Some (IosConfig c) \<Rightarrow> c | _ \<Rightarrow> default_ios);
          r1 = (if truthy (in_iosScheme inputs)
                then base\<lparr>scheme := in_iosScheme inputs\<rparr> else base)
      in if truthy (in_iosBuildConfiguration inputs)
         then r1\<lparr>buildConfiguration := the (in_iosBuildConfiguration inputs)\<rparr> else r1)"

definition resolve_android :: "PlatformConfig option \<Rightarrow> AndroidBuildConfig" where
  "resolve_android platformConfig =
     (case platformConfig of Some (AndroidConfig c) \<Rightarrow> c | _ \<Rightarrow> default_android)"

definition mergeActionInputs :: "AppBuildConfig \<Rightarrow> ActionInputs \<Rightarrow> error + ResolvedConfig" where
  "mergeActionInputs config inputs =
     (let profileName = or_default (in_profile inputs) DEFAULT_PROFILE;
          pf = in_platform inputs
      in case getProfileConfig config profileName pf of
           Inl e \<Rightarrow> Inl e
         | Inr platformConfig \<Rightarrow>
             Inr \<lparr>platform = pf,
                  profile = profileName,
                  ios = (case pf of Ios \<Rightarrow> Some (resolve_ios platformConfig inputs)
                                  | Android \<Rightarrow> None),
                  android = (case pf of Ios \<Rightarrow> None
                                      | Android \<Rightarrow> Some (resolve_android platformConfig)),
                  submit = in_submit inputs,
                  ota = in_ota inputs,
                  versionBump = in_versionBump inputs,
                  cache = in_cache inputs,
                  fingerprint = in_fingerprint inputs,
                  skipPrebuild = in_skipPrebuild inputs,
                  prebuildClean = in_prebuildClean inputs,
                  nodeVersion = or_default (in_nodeVersion inputs) DEFAULT_NODE_VERSION,
                  fastlaneVersion = or_default (in_fastlaneVersion inputs) DEFAULT_FASTLANE_VERSION,
                  xcodeVersion = in_xcodeVersion inputs,
                  submitConfig = config_submit config,
                  signingConfig = config_signing config,
                  updatesConfig = config_updates config,
                  versionConfig =
                    map_option
                      (\<lambda>v. v\<lparr>source := Some (case source v of None \<Rightarrow> DEFAULT_VERSION_SOURCE
                                                              | Some s \<Rightarrow> s)\<rparr>)
                      (config_version config),
                  versionStrategy = in_versionStrategy inputs,
                  versionGitTagPattern = in_versionGitTagPattern inputs,
                  credentials =
                    \<lparr>iosCertificateP12 = in_iosCertificateP12 inputs,
                     iosCertificatePassword = in_iosCertificatePassword inputs,
                     iosProvisioningProfile = in_iosProvisioningProfile inputs,
                     iosExtensionProfiles = in_iosExtensionProfiles inputs,
                     matchPassword = in_matchPassword inputs,
                     matchGitPrivateKey = in_matchGitPrivateKey inputs,
                     ascApiKeyId = in_ascApiKeyId inputs,
                     ascApiIssuerId = in_ascApiIssuerId inputs,
                     ascApiKeyP8 = in_ascApiKeyP8 inputs,
                     androidKeystore = in_androidKeystore inputs,
                     androidKeystorePassword = in_androidKeystorePassword inputs,
                     androidKeyAlias = in_androidKeyAlias inputs,
                     androidKeyPassword = in_androidKeyPassword inputs,
                     googlePlayServiceAccount = in_googlePlayServiceAccount inputs\<rparr>\<rparr>)"

text \<open>
  The fixtures of the parser's test suite: \<^verbatim>\<open>baseInputs\<close> and the configuration of the
  \<^verbatim>\<open>getProfileConfig\<close> tests, and the object \<^verbatim>\<open>{}\<close> that \<^verbatim>\<open>parseConfigFile\<close> returns
  when the file does not exist.
\<close>

definition baseInputs :: ActionInputs where
  "baseInputs =
     \<lparr>in_platform = Ios, in_profile = ''production'', in_submit = True, in_ota = False,
      in_versionBump = True, in_cache = True, in_fingerprint = False,
      in_skipPrebuild = False, in_prebuildClean = False, in_nodeVersion = ''20'',
      in_fastlaneVersion = ''latest'', in_xcodeVersion = None, in_versionStrategy = None,
      in_versionGitTagPattern = None, in_iosScheme = None,
      in_iosBuildConfiguration = None, in_iosCertificateP12 = Some ''base64cert'',
      in_iosCertificatePassword = Some ''certpass'', in_iosProvisioningProfile = None,
      in_iosExtensionProfiles = None, in_matchPassword = None,
      in_matchGitPrivateKey = None, in_ascApiKeyId = Some ''KEY123'',
      in_ascApiIssuerId = Some ''ISSUER456'', in_ascApiKeyP8 = Some ''base64p8'',
      in_androidKeystore = None, in_androidKeystorePassword = None,
      in_androidKeyAlias = None, in_androidKeyPassword = None,
      in_googlePlayServiceAccount = None\<rparr>"

definition emptyConfig :: AppBuildConfig where
  "emptyConfig =
     \<lparr>build = None, config_submit = None, config_signing = None, config_updates = None,
      config_version = None\<rparr>"

definition fullConfig :: AppBuildConfig where
  "fullConfig =
     emptyConfig\<lparr>build := Some
       [(''development'',
           \<lparr>profile_ios = Some \<lparr>scheme = Some ''MyApp'', buildConfiguration = ''Debug'',
                                  exportMethod = ''development''\<rparr>,
            profile_android = Some \<lparr>buildType = ''debug'', aab = None\<rparr>\<rparr>),
        (''production'',
           \<lparr>profile_ios = Some \<lparr>scheme = Some ''MyApp'', buildConfiguration = ''Release'',
                                  exportMethod = ''app-store''\<rparr>,
            profile_android = Some \<lparr>buildType = ''release'', aab = Some True\<rparr>\<rparr>),
        (''ios-only'',
           \<lparr>profile_ios = Some \<lparr>scheme = Some ''MyApp'', buildConfiguration = ''Release'',
                                  exportMethod = ''ad-hoc''\<rparr>,
            profile_android = None\<rparr>),
        (''android-only'',
           \<lparr>profile_ios = None,
            profile_android = Some \<lparr>buildType = ''release'', aab = None\<rparr>\<rparr>)]\<rparr>"

section \<open>Schema validation and parseConfigFile\<close>

text \<open>
  The schemas of \<^verbatim>\<open>schema.ts\<close> are built from the validators of the zod library. A
  validator is given the path of the value and the value (\<open>None\<close> when the key is
  missing, which zod sees as \<^verbatim>\<open>undefined\<close>); it returns the parsed value or the list of
  issues. An object validator strips unknown keys, validates every field of its shape and
  collects the issues of all of them.
\<close>

datatype issue_code = invalid_type | invalid_enum_value | invalid_literal | invalid_union

record issue =
  issue_path :: "string list"
  issue_code :: issue_code

type_synonym 'a schema = "string list \<Rightarrow> json option \<Rightarrow> issue list + 'a"

definition invalid :: "string list \<Rightarrow> issue_code \<Rightarrow> issue list + 'a" where
  "invalid p c = Inl [\<lparr>issue_path = p, issue_code = c\<rparr>]"

definition issues_of :: "issue list + 'a \<Rightarrow> issue list" where
  "issues_of r = (case r of Inl is \<Rightarrow> is | Inr _ \<Rightarrow> [])"

definition z_string :: "string schema" where
  "z_string p v = (case v of Some (JStr s) \<Rightarrow> Inr s | _ \<Rightarrow> invalid p invalid_type)"

definition z_boolean :: "bool schema" where
  "z_boolean p v = (case v of Some (JBool b) \<Rightarrow> Inr b | _ \<Rightarrow> invalid p invalid_type)"

definition z_enum :: "string list \<Rightarrow> string schema" where
  "z_enum values p v =
     (case v of
        Some (JStr s) \<Rightarrow> if s \<in> set values then Inr s else invalid p invalid_enum_value
      | _ \<Rightarrow> invalid p invalid_type)"

definition z_literal :: "string \<Rightarrow> string schema" where
  "z_literal lit p v =
     (case v of
        Some (JStr s) \<Rightarrow> if s = lit then Inr s else invalid p invalid_literal
      | _ \<Rightarrow> invalid p invalid_literal)"

definition z_optional :: "'a schema \<Rightarrow> 'a option schema" where
  "z_optional sch p v = (case v of None \<Rightarrow> Inr None | Some _ \<Rightarrow> map_sum id Some (sch p v))"

definition IosBuildConfigSchema :: "IosBuildConfig schema" where
  "IosBuildConfigSchema p v =
     (case v of
        Some (JObj kvs) \<Rightarrow>
          (let s = z_string (p @ [''scheme'']) (map_of kvs ''scheme'');
               b = z_string (p @ [''buildConfiguration'']) (map_of kvs ''buildConfiguration'');
               e = z_enum [''development'', ''ad-hoc'', ''app-store'', ''enterprise'']
                     (p @ [''exportMethod'']) (map_of kvs ''exportMethod'')
           in case (s, b, e) of
                (Inr s', Inr b', Inr e') \<Rightarrow>
                  Inr \<lparr>scheme = Some s', buildConfiguration = b', exportMethod = e'\<rparr>
              | _ \<Rightarrow> Inl (issues_of s @ issues_of b @ issues_of e))
      | _ \<Rightarrow> invalid p invalid_type)"

definition AndroidBuildConfigSchema :: "AndroidBuildConfig schema" where
  "AndroidBuildConfigSchema p v =
     (case v of
        Some (JObj kvs) \<Rightarrow>
          (let t = z_enum [''debug'', ''release''] (p @ [''buildType'']) (map_of kvs ''buildType'');
               a = z_optional z_boolean (p @ [''aab'']) (map_of kvs ''aab'')
           in case (t, a) of
                (Inr t', Inr a') \<Rightarrow> Inr \<lparr>buildType = t', aab = a'\<rparr>
              | _ \<Rightarrow> Inl (issues_of t @ issues_of a))
      | _ \<Rightarrow> invalid p invalid_type)"

text \<open>
  \<^verbatim>\<open>BuildProfileSchema = z.object({ ios: IosBuildConfigSchema.optional(),
  android: AndroidBuildConfigSchema.optional() })\<close>, under the comment
  ``Build profile --- at least one platform must be configured''. The schema has no
  refinement: both fields are optional and nothing else is checked.
\<close>

definition BuildProfileSchema :: "BuildProfile schema" where
  "BuildProfileSchema p v =
     (case v of
        Some (JObj kvs) \<Rightarrow>
          (let i = z_optional IosBuildConfigSchema (p @ [''ios'']) (map_of kvs ''ios'');
               a = z_optional AndroidBuildConfigSchema (p @ [''android'']) (map_of kvs ''android'')
           in case (i, a) of
                (Inr i', Inr a') \<Rightarrow> Inr \<lparr>profile_ios = i', profile_android = a'\<rparr>
              | _ \<Rightarrow> Inl (issues_of i @ issues_of a))
      | _ \<Rightarrow> invalid p invalid_type)"

definition SubmitIosSchema :: "SubmitIos schema" where
  "SubmitIosSchema p v =
     (case v of
        Some (JObj kvs) \<Rightarrow>
          (case z_string (p @ [''ascAppId'']) (map_of kvs ''ascAppId'') of
             Inr a \<Rightarrow> Inr \<lparr>ascAppId = a\<rparr>
           | Inl is \<Rightarrow> Inl is)
      | _ \<Rightarrow> invalid p invalid_type)"

definition SubmitAndroidSchema :: "SubmitAndroid schema" where
  "SubmitAndroidSchema p v =
     (case v of
        Some (JObj kvs) \<Rightarrow>
          (let n = z_string (p @ [''packageName'']) (map_of kvs ''packageName'');
               t = z_enum [''internal'', ''alpha'', ''beta'', ''production'']
                     (p @ [''track'']) (map_of kvs ''track'')
           in case (n, t) of
                (Inr n', Inr t') \<Rightarrow> Inr \<lparr>packageName = n', track = t'\<rparr>
              | _ \<Rightarrow> Inl (issues_of n @ issues_of t))
      | _ \<Rightarrow> invalid p invalid_type)"

definition SubmitConfigSchema :: "SubmitConfig schema" where
  "SubmitConfigSchema p v =
     (case v of
        Some (JObj kvs) \<Rightarrow>
          (let i = z_optional SubmitIosSchema (p @ [''ios'']) (map_of kvs ''ios'');
               a = z_optional SubmitAndroidSchema (p @ [''android'']) (map_of kvs ''android'')
           in case (i, a) of
                (Inr i', Inr a') \<Rightarrow> Inr \<lparr>submit_ios = i', submit_android = a'\<rparr>
              | _ \<Rightarrow> Inl (issues_of i @ issues_of a))
      | _ \<Rightarrow> invalid p invalid_type)"

definition IosSigningManualSchema :: "IosSigning schema" where
  "IosSigningManualSchema p v =
     (case v of
        Some (JObj kvs) \<Rightarrow>
          (case z_literal ''manual'' (p @ [''method'']) (map_of kvs ''method'') of
             Inr _ \<Rightarrow> Inr SigningManual
           | Inl is \<Rightarrow> Inl is)
      | _ \<Rightarrow> invalid p invalid_type)"

definition IosSigningMatchSchema :: "IosSigning schema" where
  "IosSigningMatchSchema p v =
     (case v of
        Some (JObj kvs) \<Rightarrow>
          (let m = z_literal ''match'' (p @ [''method'']) (map_of kvs ''method'');
               t = z_optional (z_enum [''appstore'', ''adhoc'', ''development''])
                     (p @ [''type'']) (map_of kvs ''type'');
               s = z_optional (z_enum [''git'', ''s3'', ''google_cloud''])
                     (p @ [''storage'']) (map_of kvs ''storage'');
               g = z_optional z_string (p @ [''gitUrl'']) (map_of kvs ''gitUrl'');
               r = z_optional z_boolean (p @ [''readonly'']) (map_of kvs ''readonly'')
           in case (m, t, s, g, r) of
                (Inr _, Inr t', Inr s', Inr g', Inr r') \<Rightarrow>
                  Inr (SigningMatch
                         \<lparr>match_type = t', match_storage = s', gitUrl = g', readonly = r'\<rparr>)
              | _ \<Rightarrow> Inl (issues_of m @ issues_of t @ issues_of s @ issues_of g @ issues_of r))
      | _ \<Rightarrow> invalid p invalid_type)"

text \<open>\<^verbatim>\<open>z.union\<close>: the first option that accepts the value; otherwise one issue.\<close>

definition IosSigningSchema :: "IosSigning schema" where
  "IosSigningSchema p v =
     (case IosSigningManualSchema p v of
        Inr r \<Rightarrow> Inr r
      | Inl _ \<Rightarrow>
          (case IosSigningMatchSchema p v of
             Inr r \<Rightarrow> Inr r
           | Inl _ \<Rightarrow> invalid p invalid_union))"

definition AndroidSigningSchema :: "AndroidSigning schema" where
  "AndroidSigningSchema p v =
     (case v of
        Some (JObj kvs) \<Rightarrow>
          (case z_literal ''manual'' (p @ [''method'']) (map_of kvs ''method'') of
             Inr _ \<Rightarrow> Inr AndroidSigningManual
           | Inl is \<Rightarrow> Inl is)
      | _ \<Rightarrow> invalid p invalid_type)"

definition SigningConfigSchema :: "SigningConfig schema" where
  "SigningConfigSchema p v =
     (case v of
        Some (JObj kvs) \<Rightarrow>
          (let i = z_optional IosSigningSchema (p @ [''ios'']) (map_of kvs ''ios'');
               a = z_optional AndroidSigningSchema (p @ [''android'']) (map_of kvs ''android'')
           in case (i, a) of
                (Inr i', Inr a') \<Rightarrow> Inr \<lparr>signing_ios = i', signing_android = a'\<rparr>
              | _ \<Rightarrow> Inl (issues_of i @ issues_of a))
      | _ \<Rightarrow> invalid p invalid_type)"

definition UpdatesStorageSchema :: "UpdatesStorage schema" where
  "UpdatesStorageSchema p v =
     (case v of
        Some (JObj kvs) \<Rightarrow>
          (let t = z_enum [''s3'', ''gcs'', ''custom''] (p @ [''type'']) (map_of kvs ''type'');
               b = z_optional z_string (p @ [''bucket'']) (map_of kvs ''bucket'');
               r = z_optional z_string (p @ [''region'']) (map_of kvs ''region'');
               x = z_optional z_string (p @ [''prefix'']) (map_of kvs ''prefix'');
               u = z_optional z_string (p @ [''uploadCommand'']) (map_of kvs ''uploadCommand'')
           in case (t, b, r, x, u) of
                (Inr t', Inr b', Inr r', Inr x', Inr u') \<Rightarrow>
                  Inr \<lparr>storage_type = t', bucket = b', region = r', storage_prefix = x',
                       uploadCommand = u'\<rparr>
              | _ \<Rightarrow> Inl (issues_of t @ issues_of b @ issues_of r @ issues_of x @ issues_of u))
      | _ \<Rightarrow> invalid p invalid_type)"

definition UpdatesConfigSchema :: "UpdatesConfig schema" where
  "UpdatesConfigSchema p v =
     (case v of
        Some (JObj kvs) \<Rightarrow>
          (let e = z_boolean (p @ [''enabled'']) (map_of kvs ''enabled'');
               u = z_optional z_string (p @ [''url'']) (map_of kvs ''url'');
               s = z_optional UpdatesStorageSchema (p @ [''storage'']) (map_of kvs ''storage'')
           in case (e, u, s) of
                (Inr e', Inr u', Inr s') \<Rightarrow> Inr \<lparr>enabled = e', url = u', storage = s'\<rparr>
              | _ \<Rightarrow> Inl (issues_of e @ issues_of u @ issues_of s))
      | _ \<Rightarrow> invalid p invalid_type)"

definition VersionConfigSchema :: "VersionConfig schema" where
  "VersionConfigSchema p v =
     (case v of
        Some (JObj kvs) \<Rightarrow>
          (let a = z_boolean (p @ [''autoIncrement'']) (map_of kvs ''autoIncrement'');
               s = z_optional z_string (p @ [''source'']) (map_of kvs ''source'');
               t = z_optional (z_enum [''app-json'', ''git-tag'', ''git-commit-count'', ''timestamp''])
                     (p @ [''strategy'']) (map_of kvs ''strategy'');
               g = z_optional z_string (p @ [''gitTagPattern'']) (map_of kvs ''gitTagPattern'')
           in case (a, s, t, g) of
                (Inr a', Inr s', Inr t', Inr g') \<Rightarrow>
                  Inr \<lparr>autoIncrement = a', source = s', strategy = t', gitTagPattern = g'\<rparr>
              | _ \<Rightarrow> Inl (issues_of a @ issues_of s @ issues_of t @ issues_of g))
      | _ \<Rightarrow> invalid p invalid_type)"

text \<open>
  \<^verbatim>\<open>z.record(z.string(), BuildProfileSchema)\<close>: every own key of the object is
  validated; the result has every key but \<^verbatim>\<open>__proto__\<close>, which zod does not copy.
\<close>

fun record_entries ::
    "'a schema \<Rightarrow> string list \<Rightarrow> (string \<times> json) list \<Rightarrow> issue list + (string \<times> 'a) list" where
  "record_entries sch p [] = Inr []"
| "record_entries sch p ((k, x) # kvs) =
     (case (sch (p @ [k]) (Some x), record_entries sch p kvs) of
        (Inr a, Inr rest) \<Rightarrow> Inr (if k = ''__proto__'' then rest else (k, a) # rest)
      | (r, rs) \<Rightarrow> Inl (issues_of r @ issues_of rs))"

definition z_record :: "'a schema \<Rightarrow> (string \<times> 'a) list schema" where
  "z_record sch p v =
     (case v of
        Some (JObj kvs) \<Rightarrow> record_entries sch p kvs
      | _ \<Rightarrow> invalid p invalid_type)"

definition AppBuildConfigSchema :: "AppBuildConfig schema" where
  "AppBuildConfigSchema p v =
     (case v of
        Some (JObj kvs) \<Rightarrow>
          (let b = z_record BuildProfileSchema (p @ [''build'']) (map_of kvs ''build'');
               s = z_optional SubmitConfigSchema (p @ [''submit'']) (map_of kvs ''submit'');
               g = z_optional SigningConfigSchema (p @ [''signing'']) (map_of kvs ''signing'');
               u = z_optional UpdatesConfigSchema (p @ [''updates'']) (map_of kvs ''updates'');
               w = z_optional VersionConfigSchema (p @ [''version'']) (map_of kvs ''version'')
           in case (b, s, g, u, w) of
                (Inr b', Inr s', Inr g', Inr u', Inr w') \<Rightarrow>
                  Inr \<lparr>build = Some b', config_submit = s', config_signing = g',
                       config_updates = u', config_version = w'\<rparr>
              | _ \<Rightarrow> Inl (issues_of b @ issues_of s @ issues_of g @ issues_of u @ issues_of w))
      | _ \<Rightarrow> invalid p invalid_type)"

text \<open>
  \<^verbatim>\<open>parseConfigFile(configPath)\<close>. The file system is the argument \<open>file\<close>: the file
  does not exist, cannot be read (with the message of the error), or has a content, which
  \<^verbatim>\<open>JSON.parse\<close> rejects (\<open>None\<close>) or turns into a value. The text of an issue's message is
  zod's; it is the argument \<open>zod_message\<close>.
\<close>

datatype config_file = NoFile | Unreadable string | Content "json option"

definition field_error :: "(issue \<Rightarrow> string) \<Rightarrow> issue \<Rightarrow> string" where
  "field_error zod_message i =
     ''  - '' @ (if issue_path i \<noteq> [] then join ''.'' (issue_path i) else ''(root)'')
     @ '': '' @ zod_message i"

definition parseConfigFile ::
    "(issue \<Rightarrow> string) \<Rightarrow> string \<Rightarrow> config_file \<Rightarrow> error + AppBuildConfig" where
  "parseConfigFile zod_message configPath file =
     (case file of
        NoFile \<Rightarrow> Inr emptyConfig
      | Unreadable message \<Rightarrow>
          Inl (Error (''Failed to read config file at '' @ quoted configPath @ '': '' @ message))
      | Content None \<Rightarrow>
          Inl (Error (''Config file '' @ quoted configPath @ '' contains invalid JSON''))
      | Content (Some j) \<Rightarrow>
          (case AppBuildConfigSchema [] (Some j) of
             Inl issues \<Rightarrow>
               Inl (Error (''Invalid config in '' @ quoted configPath @ '':'' @ [CHR 0x0A]
                           @ join [CHR 0x0A] (map (field_error zod_message) issues)))
           | Inr data \<Rightarrow> Inr data))"

section \<open>JavaScript numbers\<close>

text \<open>
  A JavaScript number is an IEEE 754 double. The embedding covers the integer-valued
  finite ones and represents such a number by the integer it denotes. Every integer of
  absolute value up to \<open>2 ^ 53\<close> is a double; above, the doubles are \<open>2 ^ 53\<close> consecutive
  multiples of a power of two between two powers of two. The result of an arithmetic
  operation is the exact result rounded to the nearest double, to the one with the even
  significand when two are equally near. \<open>ulp_of a u\<close> is the distance of the doubles
  around \<open>a\<close>, found by doubling \<open>u\<close>. Fractions are outside the embedding. A result
  that rounds to \<open>2 ^ 1024\<close> or more is \<^verbatim>\<open>Infinity\<close> in JavaScript: \<open>js_add\<close> and
  \<open>js_mul\<close> are JavaScript's sum and product of integer-valued numbers as long as the
  rounded result is below \<open>2 ^ 1024\<close>, which it is for \<open>n + 1\<close> on every double \<open>n\<close>.
\<close>

function ulp_of :: "int \<Rightarrow> int \<Rightarrow> int" where
  "ulp_of a u = (if a < 2 ^ 53 * u \<or> u \<le> 0 then u else ulp_of a (2 * u))"
  by pat_completeness auto
termination
  by (relation "measure (\<lambda>(a, u). nat (a - u))") auto

declare ulp_of.simps [simp del]

definition roundToDouble :: "int \<Rightarrow> int" where
  "roundToDouble n =
     (let a = \<bar>n\<bar>; u = ulp_of a 1; q = a div u; r = a mod u;
          q' = (if 2 * r > u \<or> (2 * r = u \<and> odd q) then q + 1 else q)
      in sgn n * (q' * u))"

definition js_add :: "int \<Rightarrow> int \<Rightarrow> int" where
  "js_add a b = roundToDouble (a + b)"

definition js_mul :: "int \<Rightarrow> int \<Rightarrow> int" where
  "js_mul a b = roundToDouble (a * b)"

text \<open>\<^verbatim>\<open>Number.isSafeInteger\<close>: up to \<^verbatim>\<open>Number.MAX_SAFE_INTEGER\<close>, which is \<open>2 ^ 53 - 1\<close>.\<close>

definition isSafeInteger :: "int \<Rightarrow> bool" where
  "isSafeInteger n \<longleftrightarrow> \<bar>n\<bar> \<le> 2 ^ 53 - 1"

text \<open>
  \<^verbatim>\<open>String(n)\<close> of an integer-valued number, as far as it is its decimal digits with a
  minus sign when it is negative: that is so for the safe integers and for \<open>2 ^ 53\<close>.
  Of a larger number JavaScript prints the shortest digits that read back as the same
  double, filled up with zeros, and from \<open>10 ^ 21\<close> on an exponent; \<open>js_String\<close> is not
  \<^verbatim>\<open>String\<close> there, and every statement below that depends on it is about safe
  integers.
\<close>

function decimal_digits :: "int \<Rightarrow> string" where
  "decimal_digits n =
     (if n < 10 then [''0123456789'' ! nat n]
      else decimal_digits (n div 10) @ [''0123456789'' ! nat (n mod 10)])"
  by pat_completeness auto
termination
  by (relation "measure nat") auto

declare decimal_digits.simps [simp del]

definition js_String :: "int \<Rightarrow> string" where
  "js_String n = (if n < 0 then CHR ''-'' # decimal_digits (- n) else decimal_digits n)"

text \<open>
  The string that a template literal makes of a JSON value: a string is itself, an array
  is its elements joined by commas (\<^verbatim>\<open>null\<close> as the empty string), an object is
  \<^verbatim>\<open>[object Object]\<close>.
\<close>

fun js_toString :: "json \<Rightarrow> string" and js_elements :: "json list \<Rightarrow> string list" where
  "js_toString JNull = ''null''"
| "js_toString (JBool b) = (if b then ''true'' else ''false'')"
| "js_toString (JNum n) = js_String n"
| "js_toString (JStr s) = s"
| "js_toString (JArr xs) = join '','' (js_elements xs)"
| "js_toString (JObj kvs) = ''[object Object]''"
| "js_elements [] = []"
| "js_elements (x # xs) = (case x of JNull \<Rightarrow> [] | _ \<Rightarrow> js_toString x) # js_elements xs"

text \<open>
  The values whose numbers are all printed digit by digit, so that \<open>js_toString\<close> is the
  string of the template literal: the numbers in it, also inside its arrays, are safe
  integers. (What an object contains is not printed.)
\<close>

fun safe_numbers :: "json \<Rightarrow> bool" and safe_elements :: "json list \<Rightarrow> bool" where
  "safe_numbers (JNum n) = isSafeInteger n"
| "safe_numbers (JArr xs) = safe_elements xs"
| "safe_numbers j = True"
| "safe_elements [] = True"
| "safe_elements (x # xs) = (safe_numbers x \<and> safe_elements xs)"

text \<open>
  The result of \<^verbatim>\<open>Number(value)\<close>. The conversion itself is ECMAScript's and is an
  argument \<open>Number\<close> of the functions below.
\<close>

datatype number = NaN | Infinite | Finite int

text \<open>
  \<open>js_Number\<close> is the conversion on the values whose result is an integer-valued number:
  \<^verbatim>\<open>null\<close> is 0, a boolean is 0 or 1, a number is itself, a string is trimmed and
  read as an optionally signed decimal integer (the empty string as 0; a value that
  rounds to \<open>2 ^ 1024\<close> or more is infinite), an array or an object is converted through
  its string. It is what the closed examples below are
  evaluated with. A string with a fraction, an exponent or a radix prefix is a number in
  ECMAScript and is \<open>NaN\<close> here; the general theorems are stated for an arbitrary
  conversion and do not depend on this.
\<close>

definition isDigit :: "char \<Rightarrow> bool" where
  "isDigit c \<longleftrightarrow> c \<in> set ''0123456789''"

definition isWhiteSpace :: "char \<Rightarrow> bool" where
  "isWhiteSpace c \<longleftrightarrow> c \<in> set [CHR '' '', CHR 0x09, CHR 0x0A, CHR 0x0B, CHR 0x0C, CHR 0x0D]"

definition trim :: "string \<Rightarrow> string" where
  "trim s = rev (dropWhile isWhiteSpace (rev (dropWhile isWhiteSpace s)))"

definition decimal_value :: "string \<Rightarrow> int" where
  "decimal_value ds = foldl (\<lambda>a c. 10 * a + (of_char c - 48)) 0 ds"

definition to_number :: "int \<Rightarrow> number" where
  "to_number n = (let d = roundToDouble n in if 2 ^ 1024 \<le> \<bar>d\<bar> then Infinite else Finite d)"

definition decimal_number :: "string \<Rightarrow> number option" where
  "decimal_number ds =
     (if ds \<noteq> [] \<and> list_all isDigit ds then Some (to_number (decimal_value ds)) else None)"

definition StringToNumber :: "string \<Rightarrow> number" where
  "StringToNumber s =
     (let t = trim s
      in if t = [] then Finite 0
         else if t \<in> set [''Infinity'', ''+Infinity'', ''-Infinity''] then Infinite
         else if hd t = CHR ''-''
           then (case decimal_number (tl t) of
                   Some (Finite n) \<Rightarrow> Finite (- n) | Some x \<Rightarrow> x | None \<Rightarrow> NaN)
         else if hd t = CHR ''+''
           then (case decimal_number (tl t) of Some x \<Rightarrow> x | None \<Rightarrow> NaN)
         else (case decimal_number t of Some x \<Rightarrow> x | None \<Rightarrow> NaN))"

definition js_Number :: "json \<Rightarrow> number" where
  "js_Number v =
     (case v of
        JNull \<Rightarrow> Finite 0
      | JBool b \<Rightarrow> Finite (if b then 1 else 0)
      | JNum n \<Rightarrow> Finite n
      | JStr s \<Rightarrow> StringToNumber s
      | _ \<Rightarrow> StringToNumber (js_toString v))"

section \<open>The version-bump engine: the app-json strategy\<close>

text \<open>
  \<^verbatim>\<open>x.key\<close> for the keys that the engine reads (\<open>expo\<close>, \<open>ios\<close>, \<open>android\<close>,
  \<open>buildNumber\<close>, \<open>versionCode\<close>): the value of an own key of an object, undefined on
  every other value that is not \<^verbatim>\<open>null\<close>. \<open>optional_prop\<close> is \<^verbatim>\<open>x?.key\<close>.
\<close>

definition js_prop :: "json \<Rightarrow> string \<Rightarrow> json option" where
  "js_prop x key = (case x of JObj kvs \<Rightarrow> map_of kvs key | _ \<Rightarrow> None)"

definition optional_prop :: "json option \<Rightarrow> string \<Rightarrow> json option" where
  "optional_prop x key = (case x of None \<Rightarrow> None | Some y \<Rightarrow> js_prop y key)"

text \<open>\<^verbatim>\<open>s.split(c)\<close>\<close>

fun splitOn :: "char \<Rightarrow> string \<Rightarrow> string list" where
  "splitOn c [] = [[]]"
| "splitOn c (x # xs) =
     (if x = c then [] # splitOn c xs
      else (case splitOn c xs of w # ws \<Rightarrow> (x # w) # ws | [] \<Rightarrow> [[x]]))"

text \<open>
  The loop of \<^verbatim>\<open>setNestedValue\<close> on the keys of the dotted path. A value on the way
  that is not an object (\<^verbatim>\<open>typeof\<close> other than \<open>object\<close>, or \<^verbatim>\<open>null\<close>) is replaced by
  \<^verbatim>\<open>{}\<close>. An array is an object to \<^verbatim>\<open>typeof\<close>: the loop goes on inside it, and what it
  stores under a key that is not an index is not part of what \<^verbatim>\<open>JSON.stringify\<close> writes,
  so the file keeps the array as it was. With no key at all, \<^verbatim>\<open>keys[-1]\<close> is the property
  name \<open>undefined\<close> (\<^verbatim>\<open>split\<close> never returns an empty list).
\<close>

fun set_keys :: "json \<Rightarrow> string list \<Rightarrow> json \<Rightarrow> json" where
  "set_keys (JObj kvs) [] v = JObj (AList.update ''undefined'' v kvs)"
| "set_keys (JObj kvs) [k] v = JObj (AList.update k v kvs)"
| "set_keys (JObj kvs) (k # k' # ks) v =
     JObj (AList.update k
       (set_keys (case map_of kvs k of
                    Some (JObj c) \<Rightarrow> JObj c
                  | Some (JArr xs) \<Rightarrow> JArr xs
                  | _ \<Rightarrow> JObj []) (k' # ks) v) kvs)"
| "set_keys j ks v = j"

text \<open>
  \<^verbatim>\<open>setNestedValue(obj, dottedPath, value)\<close>, as the content that is written back. On a
  root that is a number, a string or a boolean the assignment of a property throws.
\<close>

definition setNestedValue :: "json \<Rightarrow> string \<Rightarrow> json \<Rightarrow> error + json" where
  "setNestedValue obj dottedPath v =
     (case obj of
        JObj kvs \<Rightarrow> Inr (set_keys obj (splitOn CHR ''.'' dottedPath) v)
      | JArr xs \<Rightarrow> Inr obj
      | _ \<Rightarrow> Inl TypeError)"

record BumpResult =
  previousValue :: int
  newValue :: int
  field :: string
  version :: "string option"

text \<open>\<^verbatim>\<open>const expo = (json.expo ?? {})\<close>, for a \<open>json\<close> that is not \<^verbatim>\<open>null\<close>.\<close>

definition expo_of :: "json \<Rightarrow> json" where
  "expo_of json = (case js_prop json ''expo'' of None \<Rightarrow> JObj [] | Some JNull \<Rightarrow> JObj [] | Some e \<Rightarrow> e)"

text \<open>The choice of \<open>field\<close> and \<open>previousRaw\<close> (lines 161 to 185 of \<^verbatim>\<open>bump.ts\<close>).\<close>

definition select_field :: "platform \<Rightarrow> json \<Rightarrow> string \<times> json option" where
  "select_field pf expo =
     (case pf of
        Ios \<Rightarrow>
          (case optional_prop (js_prop expo ''ios'') ''buildNumber'' of
             Some v \<Rightarrow> (''expo.ios.buildNumber'', Some v)
           | None \<Rightarrow>
               (case js_prop expo ''buildNumber'' of
                  Some v \<Rightarrow> (''expo.buildNumber'', Some v)
                | None \<Rightarrow> (''expo.ios.buildNumber'', None)))
      | Android \<Rightarrow>
          (case optional_prop (js_prop expo ''android'') ''versionCode'' of
             Some v \<Rightarrow> (''expo.android.versionCode'', Some v)
           | None \<Rightarrow>
               (case js_prop expo ''versionCode'' of
                  Some v \<Rightarrow> (''expo.versionCode'', Some v)
                | None \<Rightarrow> (''expo.android.versionCode'', None))))"

text \<open>
  \<open>previousValue\<close> (lines 187 to 197): 0 when the field is undefined; otherwise
  \<^verbatim>\<open>Number(previousRaw)\<close>, and an error when that is \<open>NaN\<close> or not finite.
\<close>

definition previous_value :: "(json \<Rightarrow> number) \<Rightarrow> string \<Rightarrow> json option \<Rightarrow> error + int" where
  "previous_value Number fld previousRaw =
     (case previousRaw of
        None \<Rightarrow> Inr 0
      | Some raw \<Rightarrow>
          (case Number raw of
             Finite n \<Rightarrow> Inr n
           | _ \<Rightarrow> Inl (Error (fld @ '' has non-numeric value '' @ quoted (js_toString raw)))))"

definition encode :: "platform \<Rightarrow> int \<Rightarrow> json" where
  "encode pf n = (case pf of Ios \<Rightarrow> JStr (js_String n) | Android \<Rightarrow> JNum n)"

text \<open>
  \<^verbatim>\<open>bumpFromAppJson\<close>, from the parsed content of the file that \<^verbatim>\<open>resolveExpoConfig\<close>
  returns to the content that is written back and the result. Reading and writing the
  file are taken to succeed.
\<close>

definition bumpFromAppJson ::
    "(json \<Rightarrow> number) \<Rightarrow> platform \<Rightarrow> json \<Rightarrow> error + json \<times> BumpResult" where
  "bumpFromAppJson Number pf json =
     (case json of
        JNull \<Rightarrow> Inl TypeError
      | _ \<Rightarrow>
          (let (fld, previousRaw) = select_field pf (expo_of json)
           in case previous_value Number fld previousRaw of
                Inl e \<Rightarrow> Inl e
              | Inr prev \<Rightarrow>
                  (let new = js_add prev 1
                   in case setNestedValue json fld (encode pf new) of
                        Inl e \<Rightarrow> Inl e
                      | Inr written \<Rightarrow>
                          Inr (written,
                               \<lparr>previousValue = prev, newValue = new, field = fld,
                                version = None\<rparr>))))"

text \<open>
  The value found under a path of keys, for stating what a write leaves unchanged.
\<close>

fun get_path :: "json \<Rightarrow> string list \<Rightarrow> json option" where
  "get_path j [] = Some j"
| "get_path (JObj kvs) (k # ks) = (case map_of kvs k of None \<Rightarrow> None | Some c \<Rightarrow> get_path c ks)"
| "get_path j (k # ks) = None"

text \<open>\<^verbatim>\<open>Object.keys\<close> of a JSON value: the keys of an object, in their order.\<close>

definition object_keys :: "json \<Rightarrow> string list" where
  "object_keys j = (case j of JObj kvs \<Rightarrow> map fst kvs | _ \<Rightarrow> [])"

section \<open>The version-bump engine: the git-tag strategy\<close>

record Version =
  major :: int
  minor :: int
  patch :: int

text \<open>
  \<^verbatim>\<open>tag.match(/(\d+)\.(\d+)\.(\d+)/)\<close>: the leftmost position at which three runs of
  digits separated by dots start. A run is taken as long as it goes (a shorter run would be
  followed by a digit, not by the dot). \<^verbatim>\<open>parseInt(run, 10)\<close> is the decimal value, as a
  double. (For a run of more than 308 digits the value can reach \<open>2 ^ 1024\<close>, where
  \<^verbatim>\<open>parseInt\<close> returns \<^verbatim>\<open>Infinity\<close>; \<open>parseInt10\<close> is not \<^verbatim>\<open>parseInt\<close> there, and
  the statements below are about versions of safe integers.)
\<close>

definition match_here :: "string \<Rightarrow> (string \<times> string \<times> string) option" where
  "match_here s =
     (let d1 = takeWhile isDigit s
      in if d1 = [] then None
         else case dropWhile isDigit s of
           CHR ''.'' # s2 \<Rightarrow>
             (let d2 = takeWhile isDigit s2
              in if d2 = [] then None
                 else case dropWhile isDigit s2 of
                   CHR ''.'' # s3 \<Rightarrow>
                     (let d3 = takeWhile isDigit s3
                      in if d3 = [] then None else Some (d1, d2, d3))
                 | _ \<Rightarrow> None)
         | _ \<Rightarrow> None)"

fun match_first :: "string \<Rightarrow> (string \<times> string \<times> string) option" where
  "match_first [] = None"
| "match_first (c # cs) =
     (case match_here (c # cs) of Some m \<Rightarrow> Some m | None \<Rightarrow> match_first cs)"

definition parseInt10 :: "string \<Rightarrow> int" where
  "parseInt10 ds = roundToDouble (decimal_value ds)"

definition parseVersionFromTag :: "string \<Rightarrow> Version option" where
  "parseVersionFromTag tag =
     (case match_first tag of
        None \<Rightarrow> None
      | Some (d1, d2, d3) \<Rightarrow>
          Some \<lparr>major = parseInt10 d1, minor = parseInt10 d2, patch = parseInt10 d3\<rparr>)"

text \<open>
  \<open>previousVersion\<close> (lines 252 to 260): \<open>latestTag\<close> is \<open>None\<close> when \<^verbatim>\<open>git describe\<close>
  failed, otherwise its trimmed output; an empty tag is falsy.
\<close>

definition previousVersion :: "string option \<Rightarrow> Version" where
  "previousVersion latestTag =
     (case latestTag of
        None \<Rightarrow> \<lparr>major = 0, minor = 0, patch = 0\<rparr>
      | Some tag \<Rightarrow>
          if tag = [] then \<lparr>major = 0, minor = 0, patch = 0\<rparr>
          else (case parseVersionFromTag tag of
                  Some parsed \<Rightarrow> parsed
                | None \<Rightarrow> \<lparr>major = 0, minor = 0, patch = 0\<rparr>))"

text \<open>\<open>newVersion\<close> (lines 263 to 274); \<^verbatim>\<open>major || 1\<close> is 1 when \<open>major\<close> is 0.\<close>

definition newVersion :: "Version \<Rightarrow> Version" where
  "newVersion prev =
     (let new = \<lparr>major = (if major prev = 0 then 1 else major prev),
                 minor = minor prev,
                 patch = js_add (patch prev) (if major prev = 0 then 0 else 1)\<rparr>
      in if major prev = 0 \<and> minor prev = 0 \<and> patch prev = 0
         then \<lparr>major = 1, minor = 0, patch = 0\<rparr>
         else new)"

definition buildNumber_of :: "Version \<Rightarrow> int" where
  "buildNumber_of v = js_add (js_add (js_mul (major v) 10000) (js_mul (minor v) 100)) (patch v)"

definition versionString :: "Version \<Rightarrow> string" where
  "versionString v = js_String (major v) @ ''.'' @ js_String (minor v) @ ''.'' @ js_String (patch v)"

text \<open>
  \<^verbatim>\<open>bumpFromGitTag\<close>: the result that it returns, from the platform and the latest tag.
  (Its best-effort write of the build number and the version to \<^verbatim>\<open>app.json\<close> has no part
  in the result.)
\<close>

definition bumpFromGitTag :: "platform \<Rightarrow> string option \<Rightarrow> BumpResult" where
  "bumpFromGitTag pf latestTag =
     (let prev = previousVersion latestTag;
          new = newVersion prev
      in \<lparr>previousValue = buildNumber_of prev,
          newValue = buildNumber_of new,
          field = (case pf of Ios \<Rightarrow> ''expo.ios.buildNumber''
                            | Android \<Rightarrow> ''expo.android.versionCode''),
          version = Some (versionString new)\<rparr>)"

section \<open>The fingerprint cache\<close>

text \<open>
  \<^verbatim>\<open>restoreFingerprintCache(platform, hash)\<close> calls \<^verbatim>\<open>fs.mkdirSync\<close> on the marker
  directory and then, inside \<^verbatim>\<open>try\<close>, \<^verbatim>\<open>cache.restoreCache\<close>. Each call returns or
  throws; the two are arguments. \<^verbatim>\<open>restoreCache\<close> returns the key that it restored, or
  undefined.
\<close>

datatype 'a outcome = Returns 'a | Throws error

definition cacheKey :: "string \<Rightarrow> string \<Rightarrow> string" where
  "cacheKey pf hash = ''native-build-'' @ pf @ ''-'' @ hash"

definition restoreFingerprintCache ::
    "(string \<Rightarrow> unit outcome) \<Rightarrow> (string list \<Rightarrow> string \<Rightarrow> string option outcome) \<Rightarrow>
     string \<Rightarrow> string \<Rightarrow> string \<Rightarrow> error + bool" where
  "restoreFingerprintCache mkdirSync restoreCache FINGERPRINT_MARKER_DIR pf hash =
     (let key = cacheKey pf hash
      in case mkdirSync FINGERPRINT_MARKER_DIR of
           Throws e \<Rightarrow> Inl e
         | Returns _ \<Rightarrow>
             (case restoreCache [FINGERPRINT_MARKER_DIR] key of
                Throws err \<Rightarrow> Inr False
              | Returns hit \<Rightarrow> if truthy hit then Inr True else Inr False))"

section \<open>Properties of getProfileConfig\<close>

text \<open>
  What \<^verbatim>\<open>getProfileConfig\<close> does on a configuration with a \<open>build\<close> section: the
  stored object for a configured platform, the error that lists the profile names for a
  name that neither \<open>build\<close> nor \<^verbatim>\<open>Object.prototype\<close> has, the error that lists the
  configured platforms (or \<open>none\<close>) for a profile without the platform.
\<close>

lemma getProfileConfig_stored_ios:
  assumes "build config = Some b" and "map_of b profileName = Some p"
    and "profile_ios p = Some c"
  shows "getProfileConfig config profileName Ios = Inr (Some (IosConfig c))"
  using assms by (simp add: getProfileConfig_def get_property_def platformConfig_of_def)

lemma getProfileConfig_stored_android:
  assumes "build config = Some b" and "map_of b profileName = Some p"
    and "profile_android p = Some c"
  shows "getProfileConfig config profileName Android = Inr (Some (AndroidConfig c))"
  using assms by (simp add: getProfileConfig_def get_property_def platformConfig_of_def)

lemma getProfileConfig_absent_profile:
  assumes "build config = Some b" and "map_of b profileName = None"
    and "profileName \<notin> set object_prototype_keys"
  shows "getProfileConfig config profileName pf =
           Inl (Error (''Build profile '' @ quoted profileName
                       @ '' not found. Available profiles: '' @ join '', '' (map fst b)))"
  using assms by (simp add: getProfileConfig_def get_property_def profile_not_found_def)

lemma getProfileConfig_missing_platform:
  assumes "build config = Some b" and "map_of b profileName = Some p"
    and "platformConfig_of p pf = None"
  shows "getProfileConfig config profileName pf =
           Inl (Error (''Platform '' @ quoted (platform_name pf)
                       @ '' is not configured in profile '' @ quoted profileName
                       @ ''. Configured platforms: ''
                       @ (if configured_platforms p = [] then ''none''
                          else join '', '' (configured_platforms p))))"
proof -
  have "join '', '' (configured_platforms p) = [] \<longleftrightarrow> configured_platforms p = []"
    by (auto simp: configured_platforms_def split: option.splits)
  then show ?thesis
    using assms
    by (simp add: getProfileConfig_def get_property_def platform_not_configured_def
          or_default_def)
qed

text \<open>
  Claim C8 holds for a stored platform object and for a profile that lacks the platform,
  but not for every absent profile name. \<open>toString\<close> is not a profile of the
  configuration of the test suite; \<^verbatim>\<open>config.build["toString"]\<close> is the function inherited
  from \<^verbatim>\<open>Object.prototype\<close>, so the check \<^verbatim>\<open>!profile\<close> passes and the error is the one
  for a platform that is not configured, with \<open>none\<close> as the configured platforms. It
  does not list the available profiles.
\<close>

theorem getProfileConfig_inherited_name:
  "getProfileConfig fullConfig ''toString'' Ios =
     Inl (Error (''Platform '' @ quoted ''ios'' @ '' is not configured in profile ''
                 @ quoted ''toString'' @ ''. Configured platforms: none''))
   \<and> map_of (the (build fullConfig)) ''toString'' = None
   \<and> getProfileConfig fullConfig ''toString'' Ios
       \<noteq> Inl (profile_not_found ''toString'' (map fst (the (build fullConfig))))"
  by (simp add: getProfileConfig_def fullConfig_def emptyConfig_def get_property_def
        object_prototype_keys_def platform_not_configured_def profile_not_found_def
        platform_name_def or_default_def quoted_def)

text \<open>
  Claim C10. On a configuration without a \<open>build\<close> section, \<^verbatim>\<open>getProfileConfig\<close>
  returns undefined for every profile name and every platform; it raises neither error.
\<close>

theorem getProfileConfig_no_build:
  "getProfileConfig (config\<lparr>build := None\<rparr>) profileName pf = Inr None"
  by (simp add: getProfileConfig_def)

section \<open>Properties of the configuration merger\<close>

lemma getProfileConfig_Ios:
  "getProfileConfig config n Ios = Inr (Some pc) \<Longrightarrow> \<exists>c. pc = IosConfig c"
  by (auto simp: getProfileConfig_def platformConfig_of_def
           split: option.splits property.splits)

lemma getProfileConfig_Android:
  "getProfileConfig config n Android = Inr (Some pc) \<Longrightarrow> \<exists>c. pc = AndroidConfig c"
  by (auto simp: getProfileConfig_def platformConfig_of_def
           split: option.splits property.splits)

lemma getProfileConfig_fullConfig_production:
  "getProfileConfig fullConfig ''production'' Ios =
     Inr (Some (IosConfig \<lparr>scheme = Some ''MyApp'', buildConfiguration = ''Release'',
                          exportMethod = ''app-store''\<rparr>))"
  by (simp add: getProfileConfig_def fullConfig_def emptyConfig_def get_property_def
                platformConfig_of_def)

lemma mergeActionInputs_fullConfig_baseInputs:
  "\<exists>r. mergeActionInputs fullConfig baseInputs = Inr r"
  by (simp add: mergeActionInputs_def Let_def baseInputs_def or_default_def DEFAULT_PROFILE_def
        getProfileConfig_fullConfig_production)

text \<open>
  Claim C2. Whenever \<^verbatim>\<open>mergeActionInputs\<close> returns a resolved configuration, its
  \<open>ios\<close> field is defined exactly when the platform of the inputs is \<open>ios\<close>, its
  \<open>android\<close> field exactly when the platform is \<open>android\<close>, and exactly one of the two
  fields is defined.
\<close>

theorem mergeActionInputs_one_platform:
  assumes "mergeActionInputs config inputs = Inr r"
  shows "(ios r \<noteq> None \<longleftrightarrow> in_platform inputs = Ios)
       \<and> (android r \<noteq> None \<longleftrightarrow> in_platform inputs = Android)
       \<and> (ios r = None) \<noteq> (android r = None)"
  using assms
  by (cases "in_platform inputs")
     (auto simp: mergeActionInputs_def Let_def split: sum.splits)

text \<open>The test ``produces a ResolvedConfig for iOS'': \<open>ios\<close> is set, \<open>android\<close> is not.\<close>

theorem mergeActionInputs_one_platform_witness:
  "\<exists>r. mergeActionInputs fullConfig baseInputs = Inr r \<and> ios r \<noteq> None \<and> android r = None"
proof -
  obtain r where r: "mergeActionInputs fullConfig baseInputs = Inr r"
    using mergeActionInputs_fullConfig_baseInputs by blast
  have "in_platform baseInputs = Ios" by (simp add: baseInputs_def)
  with mergeActionInputs_one_platform [OF r] have "ios r \<noteq> None \<and> android r = None" by auto
  with r show ?thesis by blast
qed

text \<open>
  Claim C3, as stated, fails: with no configuration file, the build configuration of the
  platform \<open>ios\<close> is not always \<open>Release\<close>. The input \<^verbatim>\<open>iosBuildConfiguration\<close> overrides
  the default as it overrides the value of a file; with \<open>Debug\<close> as input the resolved
  build configuration is \<open>Debug\<close>.
\<close>

theorem mergeActionInputs_empty_config_counterexample:
  "(case mergeActionInputs emptyConfig (baseInputs\<lparr>in_iosBuildConfiguration := Some ''Debug''\<rparr>) of
      Inl e \<Rightarrow> None
    | Inr r \<Rightarrow> map_option buildConfiguration (ios r)) = Some ''Debug''"
  by (simp add: mergeActionInputs_def Let_def getProfileConfig_def emptyConfig_def
        or_default_def DEFAULT_PROFILE_def resolve_ios_def default_ios_def baseInputs_def truthy_def)

text \<open>
  Claim C3, amended. On the empty configuration \<^verbatim>\<open>mergeActionInputs\<close> does not fail, for
  any inputs. The profile name is \<open>production\<close> when the input profile is empty. For the
  platform \<open>android\<close> the resolved build type is \<open>release\<close> and \<open>aab\<close> is true. For the
  platform \<open>ios\<close> the export method is \<open>app-store\<close>, and the build configuration is
  \<open>Release\<close> unless the input \<^verbatim>\<open>iosBuildConfiguration\<close> is supplied (not empty), in which
  case it is that input.
\<close>

theorem mergeActionInputs_empty_config:
  "\<exists>r. mergeActionInputs emptyConfig inputs = Inr r
     \<and> profile r = (if in_profile inputs = [] then ''production'' else in_profile inputs)
     \<and> (in_platform inputs = Android \<longrightarrow>
          android r = Some \<lparr>buildType = ''release'', aab = Some True\<rparr>)
     \<and> (in_platform inputs = Ios \<longrightarrow>
          (\<exists>c. ios r = Some c \<and> exportMethod c = ''app-store''
             \<and> buildConfiguration c =
                 (if truthy (in_iosBuildConfiguration inputs)
                  then the (in_iosBuildConfiguration inputs) else ''Release'')))"
  by (cases "in_platform inputs")
     (simp_all add: mergeActionInputs_def Let_def getProfileConfig_def emptyConfig_def
        or_default_def DEFAULT_PROFILE_def resolve_ios_def resolve_android_def default_ios_def
        default_android_def DEFAULT_ANDROID_BUILD_TYPE_def DEFAULT_ANDROID_AAB_def
        DEFAULT_IOS_BUILD_CONFIGURATION_def DEFAULT_IOS_EXPORT_METHOD_def)

text \<open>
  With the inputs of the test suite, for the platform \<open>android\<close> and with an empty profile
  name.
\<close>

theorem mergeActionInputs_empty_config_witness:
  "\<exists>r. mergeActionInputs emptyConfig (baseInputs\<lparr>in_platform := Android, in_profile := []\<rparr>) = Inr r
     \<and> profile r = ''production''
     \<and> android r = Some \<lparr>buildType = ''release'', aab = Some True\<rparr>"
  using mergeActionInputs_empty_config [of "baseInputs\<lparr>in_platform := Android, in_profile := []\<rparr>"]
  by (auto simp: baseInputs_def)

text \<open>
  Claim C4. Let the selected profile (the input profile, or \<open>production\<close> when that is
  empty) be stored in the \<open>build\<close> section of the configuration as \<open>p\<close>, and let \<open>p\<close>
  configure \<open>ios\<close> as the object \<open>c\<close>. For the platform \<open>ios\<close>, the resolved scheme and
  build configuration are the inputs \<^verbatim>\<open>iosScheme\<close> and \<^verbatim>\<open>iosBuildConfiguration\<close> when
  these are supplied (not empty), and the values stored in \<open>c\<close> otherwise, whatever the
  defaults are; the export method is the one stored in \<open>c\<close>. The defaults are used only
  when neither source provides a value: on the same configuration without its \<open>build\<close>
  section, the build configuration is the input when supplied and \<open>Release\<close> otherwise
  (the scheme has no default: it is the input or undefined).
\<close>

theorem mergeActionInputs_ios_precedence:
  assumes "in_platform inputs = Ios"
    and "build config = Some b"
    and "map_of b (or_default (in_profile inputs) DEFAULT_PROFILE) = Some p"
    and "profile_ios p = Some c"
  shows "(\<exists>r. mergeActionInputs config inputs = Inr r
            \<and> ios r = Some \<lparr>scheme = (if truthy (in_iosScheme inputs)
                                        then in_iosScheme inputs else scheme c),
                             buildConfiguration =
                               (if truthy (in_iosBuildConfiguration inputs)
                                then the (in_iosBuildConfiguration inputs)
                                else buildConfiguration c),
                             exportMethod = exportMethod c\<rparr>)
       \<and> (\<exists>r. mergeActionInputs (config\<lparr>build := None\<rparr>) inputs = Inr r
            \<and> ios r = Some \<lparr>scheme = (if truthy (in_iosScheme inputs)
                                        then in_iosScheme inputs else None),
                             buildConfiguration =
                               (if truthy (in_iosBuildConfiguration inputs)
                                then the (in_iosBuildConfiguration inputs)
                                else ''Release''),
                             exportMethod = ''app-store''\<rparr>)"
proof -
  have g: "getProfileConfig config (or_default (in_profile inputs) DEFAULT_PROFILE) Ios
             = Inr (Some (IosConfig c))"
    using assms(2-4) by (rule getProfileConfig_stored_ios)
  have stored: "\<exists>r. mergeActionInputs config inputs = Inr r
            \<and> ios r = Some \<lparr>scheme = (if truthy (in_iosScheme inputs)
                                        then in_iosScheme inputs else scheme c),
                             buildConfiguration =
                               (if truthy (in_iosBuildConfiguration inputs)
                                then the (in_iosBuildConfiguration inputs)
                                else buildConfiguration c),
                             exportMethod = exportMethod c\<rparr>"
    using assms(1) g by (simp add: mergeActionInputs_def Let_def resolve_ios_def)
  have dflt: "\<exists>r. mergeActionInputs (config\<lparr>build := None\<rparr>) inputs = Inr r
            \<and> ios r = Some \<lparr>scheme = (if truthy (in_iosScheme inputs)
                                        then in_iosScheme inputs else None),
                             buildConfiguration =
                               (if truthy (in_iosBuildConfiguration inputs)
                                then the (in_iosBuildConfiguration inputs)
                                else ''Release''),
                             exportMethod = ''app-store''\<rparr>"
    using assms(1)
    by (simp add: mergeActionInputs_def Let_def resolve_ios_def getProfileConfig_def
          default_ios_def DEFAULT_IOS_BUILD_CONFIGURATION_def DEFAULT_IOS_EXPORT_METHOD_def)
  from stored dflt show ?thesis by blast
qed

text \<open>
  The development profile of the test suite, whose stored build configuration \<open>Debug\<close>
  and export method \<open>development\<close> differ from the defaults, with the scheme \<open>Other\<close> as
  input: the input wins for the scheme, the file for the build configuration and the
  export method; without the \<open>build\<close> section the defaults take the file's place.
\<close>

theorem mergeActionInputs_ios_precedence_witness:
  "(\<exists>r. mergeActionInputs fullConfig
           (baseInputs\<lparr>in_profile := ''development'', in_iosScheme := Some ''Other''\<rparr>) = Inr r
        \<and> ios r = Some \<lparr>scheme = Some ''Other'', buildConfiguration = ''Debug'',
                         exportMethod = ''development''\<rparr>)
   \<and> (\<exists>r. mergeActionInputs (fullConfig\<lparr>build := None\<rparr>)
           (baseInputs\<lparr>in_profile := ''development'', in_iosScheme := Some ''Other''\<rparr>) = Inr r
        \<and> ios r = Some \<lparr>scheme = Some ''Other'', buildConfiguration = ''Release'',
                         exportMethod = ''app-store''\<rparr>)"
proof -
  let ?i = "baseInputs\<lparr>in_profile := ''development'', in_iosScheme := Some ''Other''\<rparr>"
  let ?p = "\<lparr>profile_ios = Some \<lparr>scheme = Some ''MyApp'', buildConfiguration = ''Debug'',
                                     exportMethod = ''development''\<rparr>,
             profile_android = Some \<lparr>buildType = ''debug'', aab = None\<rparr>\<rparr>"
  have pl: "in_platform ?i = Ios" by (simp add: baseInputs_def)
  have b: "build fullConfig = Some (the (build fullConfig))"
    by (simp add: fullConfig_def emptyConfig_def)
  have m: "map_of (the (build fullConfig)) (or_default (in_profile ?i) DEFAULT_PROFILE) = Some ?p"
    by (simp add: fullConfig_def emptyConfig_def baseInputs_def or_default_def)
  have c: "profile_ios ?p = Some \<lparr>scheme = Some ''MyApp'', buildConfiguration = ''Debug'',
                                     exportMethod = ''development''\<rparr>" by simp
  show ?thesis
    using mergeActionInputs_ios_precedence [OF pl b m c]
    by (simp add: baseInputs_def truthy_def)
qed

section \<open>Properties of schema validation\<close>

text \<open>
  Claim C1 says that a profile that configures neither platform fails schema validation.
  The schema's own comment says so too (``at least one platform must be configured''),
  but \<^verbatim>\<open>BuildProfileSchema\<close> makes both platforms optional and checks nothing else:
  \<^verbatim>\<open>parseConfigFile\<close> returns the configuration of the file
  \<^verbatim>\<open>{"build":{"p":{}}}\<close> as valid, with the profile \<open>p\<close> that has no platform.
\<close>

theorem parseConfigFile_accepts_empty_profile:
  "parseConfigFile zod_message configPath
     (Content (Some (JObj [(''build'', JObj [(''p'', JObj [])])]))) =
   Inr \<lparr>build = Some [(''p'', \<lparr>profile_ios = None, profile_android = None\<rparr>)],
        config_submit = None, config_signing = None, config_updates = None,
        config_version = None\<rparr>"
  by (simp add: parseConfigFile_def AppBuildConfigSchema_def z_record_def BuildProfileSchema_def
        z_optional_def)

section \<open>Properties of the fingerprint cache\<close>

text \<open>
  Claim C9, as stated, fails: \<^verbatim>\<open>restoreFingerprintCache\<close> can propagate an error. The
  marker directory is created before the \<^verbatim>\<open>try\<close> block, so an error of
  \<^verbatim>\<open>fs.mkdirSync\<close> is not caught.
\<close>

theorem restoreFingerprintCache_mkdir_throws:
  "restoreFingerprintCache (\<lambda>dir. Throws (Error ''EACCES: permission denied, mkdir''))
     (\<lambda>paths key. Returns None) ''/tmp/app-build-fingerprint'' ''ios'' ''h1''
   = Inl (Error ''EACCES: permission denied, mkdir'')"
  by (simp add: restoreFingerprintCache_def)

text \<open>
  Claim C9, amended. When the marker directory can be created, \<^verbatim>\<open>restoreFingerprintCache\<close>
  returns a boolean for every platform and hash and propagates no error of the cache
  store: it returns false when \<^verbatim>\<open>restoreCache\<close> throws, as it does on a miss, and true
  exactly when \<^verbatim>\<open>restoreCache\<close>, called with the key \<open>native-build-{platform}-{hash}\<close>,
  reports a hit (returns a key, a non-empty string).
\<close>

theorem restoreFingerprintCache_total:
  assumes "mkdirSync dir = Returns ()"
  shows "\<exists>b. restoreFingerprintCache mkdirSync restoreCache dir pf hash = Inr b
     \<and> (b \<longleftrightarrow> (\<exists>k. restoreCache [dir] (''native-build-'' @ pf @ ''-'' @ hash) = Returns (Some k)
                   \<and> k \<noteq> []))
     \<and> ((\<exists>e. restoreCache [dir] (''native-build-'' @ pf @ ''-'' @ hash) = Throws e) \<longrightarrow> \<not> b)
     \<and> (restoreCache [dir] (''native-build-'' @ pf @ ''-'' @ hash) = Returns None \<longrightarrow> \<not> b)"
  using assms
  by (auto simp: restoreFingerprintCache_def cacheKey_def truthy_def Let_def
           split: outcome.splits option.splits)

text \<open>The test ``returns false on cache error''.\<close>

theorem restoreFingerprintCache_total_witness:
  "restoreFingerprintCache (\<lambda>dir. Returns ())
     (\<lambda>paths key. Throws (Error ''Cache service unavailable'')) ''/tmp/app-build-fingerprint''
     ''ios'' ''abc123'' = Inr False"
  using restoreFingerprintCache_total
          [of "\<lambda>dir. Returns ()" "''/tmp/app-build-fingerprint''"
              "\<lambda>paths key. Throws (Error ''Cache service unavailable'')" "''ios''" "''abc123''"]
  by auto

section \<open>Properties of the number model\<close>

text \<open>
  Rounding leaves an integer below \<open>2 ^ 53\<close> as it is, so the arithmetic of safe integers
  is exact; and rounding is idempotent: its results are doubles.
\<close>

lemma ulp_of_small: "a < 2 ^ 53 \<Longrightarrow> ulp_of a 1 = 1"
  by (simp add: ulp_of.simps [of a 1])

lemma roundToDouble_exact: "\<bar>n\<bar> < 2 ^ 53 \<Longrightarrow> roundToDouble n = n"
  by (simp add: roundToDouble_def ulp_of_small Let_def mult_sgn_abs)

lemma js_add_safe: "isSafeInteger (a + b) \<Longrightarrow> js_add a b = a + b"
  by (simp add: js_add_def isSafeInteger_def roundToDouble_exact)

lemma js_mul_safe: "isSafeInteger (a * b) \<Longrightarrow> js_mul a b = a * b"
  by (simp add: js_mul_def isSafeInteger_def roundToDouble_exact)

lemma ulp_of_le:
  "0 < u \<Longrightarrow> a < 2 ^ 53 * (u * 2 ^ k) \<Longrightarrow> \<exists>j\<le>k. ulp_of a u = u * 2 ^ j"
proof (induction k arbitrary: u)
  case 0
  then have "ulp_of a u = u" by (simp add: ulp_of.simps [of a u])
  then show ?case by simp
next
  case (Suc k)
  show ?case
  proof (cases "a < 2 ^ 53 * u")
    case True
    then have "ulp_of a u = u" by (simp add: ulp_of.simps [of a u])
    then show ?thesis by (intro exI [of _ 0]) simp
  next
    case False
    with Suc.prems have step: "ulp_of a u = ulp_of a (2 * u)"
      by (simp add: ulp_of.simps [of a u])
    from Suc.prems have "0 < 2 * u" "a < 2 ^ 53 * (2 * u * 2 ^ k)" by (simp_all add: mult_ac)
    from Suc.IH [OF this] obtain j where "j \<le> k" "ulp_of a (2 * u) = 2 * u * 2 ^ j" by blast
    with step show ?thesis by (intro exI [of _ "Suc j"]) simp
  qed
qed

lemma ulp_of_power:
  assumes "0 \<le> a" "a < 2 ^ 53 * 2 ^ k"
  shows "\<exists>j\<le>k. ulp_of a 1 = 2 ^ j"
  using ulp_of_le [of 1 a k] assms by simp

lemma ulp_of_bound: "0 < u \<Longrightarrow> a < 2 ^ 53 * ulp_of a u"
proof (induction a u rule: ulp_of.induct)
  case (1 a u)
  show ?case
  proof (cases "a < 2 ^ 53 * u")
    case True
    then show ?thesis by (simp add: ulp_of.simps [of a u])
  next
    case False
    with 1 show ?thesis by (simp add: ulp_of.simps [of a u])
  qed
qed

lemma ulp_of_pos: "0 < u \<Longrightarrow> 0 < ulp_of a u"
proof (induction a u rule: ulp_of.induct)
  case (1 a u)
  show ?case
  proof (cases "a < 2 ^ 53 * u")
    case True
    with 1 show ?thesis by (simp add: ulp_of.simps [of a u])
  next
    case False
    with 1 show ?thesis by (simp add: ulp_of.simps [of a u])
  qed
qed

lemma less_two_power: "0 \<le> a \<Longrightarrow> (a::int) < 2 ^ nat a"
proof -
  assume "0 \<le> a"
  have "nat a < 2 ^ nat a" by (rule less_exp)
  then have "int (nat a) < int (2 ^ nat a)" by (simp only: of_nat_less_iff)
  with \<open>0 \<le> a\<close> show ?thesis by simp
qed

lemma ulp_of_is_power: "0 \<le> a \<Longrightarrow> \<exists>j. ulp_of a 1 = 2 ^ j"
proof -
  assume a: "0 \<le> a"
  have "a < 2 ^ nat a" using a by (rule less_two_power)
  also have "\<dots> \<le> 2 ^ 53 * 2 ^ nat a" by simp
  finally have "a < 2 ^ 53 * 2 ^ nat a" .
  with ulp_of_power [OF a] show ?thesis by blast
qed

lemma roundToDouble_dvd: "ulp_of \<bar>n\<bar> 1 dvd n \<Longrightarrow> roundToDouble n = n"
proof -
  assume d: "ulp_of \<bar>n\<bar> 1 dvd n"
  have p: "0 < ulp_of \<bar>n\<bar> 1" by (simp add: ulp_of_pos)
  from d have "ulp_of \<bar>n\<bar> 1 dvd \<bar>n\<bar>" by simp
  then have "\<bar>n\<bar> mod (ulp_of \<bar>n\<bar> 1) = 0"
    and "(\<bar>n\<bar> div (ulp_of \<bar>n\<bar> 1)) * (ulp_of \<bar>n\<bar> 1) = \<bar>n\<bar>"
    by simp_all
  with p show ?thesis
    by (simp add: roundToDouble_def Let_def mult_sgn_abs)
qed

lemma roundToDouble_idem: "roundToDouble (roundToDouble n) = roundToDouble n"
proof -
  define a where "a = \<bar>n\<bar>"
  define u where "u = ulp_of a 1"
  define q where "q = a div u"
  define q' where "q' = (if 2 * (a mod u) > u \<or> (2 * (a mod u) = u \<and> odd q) then q + 1 else q)"
  have a0: "0 \<le> a" by (simp add: a_def)
  obtain k where k: "u = 2 ^ k" using ulp_of_is_power [OF a0] by (auto simp: u_def)
  have upos: "0 < u" by (simp add: k)
  have ab: "a < 2 ^ 53 * u" unfolding u_def by (rule ulp_of_bound) simp
  have q0: "0 \<le> q" using a0 upos by (simp add: q_def pos_imp_zdiv_nonneg_iff)
  have "0 \<le> a mod u" using upos by simp
  moreover have "q * u + a mod u = a" by (simp add: q_def)
  ultimately have "q * u \<le> a" by linarith
  with ab have "q * u < 2 ^ 53 * u" by linarith
  with upos have qlt: "q < 2 ^ 53" by simp
  have q'0: "0 \<le> q'" using q0 by (simp add: q'_def)
  have q'le: "q' \<le> 2 ^ 53" using qlt by (simp add: q'_def)
  have r: "roundToDouble n = sgn n * (q' * u)"
    by (simp add: roundToDouble_def Let_def a_def u_def q_def q'_def)
  define m where "m = q' * u"
  have m0: "0 \<le> m" using q'0 upos by (simp add: m_def)
  have abs: "\<bar>sgn n * m\<bar> = (if n = 0 then 0 else m)"
    using m0 by (simp add: abs_mult abs_sgn_eq)
  show ?thesis
  proof (cases "n = 0 \<or> m = 0")
    case True
    then have z: "sgn n * m = 0" by auto
    have "roundToDouble 0 = 0" by (simp add: roundToDouble_exact)
    then have "roundToDouble (sgn n * m) = sgn n * m" by (simp only: z)
    then show ?thesis by (simp add: r m_def)
  next
    case False
    then have absm: "\<bar>sgn n * m\<bar> = m" using abs by simp
    have "ulp_of m 1 dvd m"
    proof (cases "q' < 2 ^ 53")
      case True
      then have "m < 2 ^ 53 * 2 ^ k" using upos by (simp add: m_def k)
      from ulp_of_power [OF m0 this] obtain j where j: "j \<le> k" "ulp_of m 1 = 2 ^ j" by blast
      then have "(2::int) ^ j dvd 2 ^ k" by (simp add: le_imp_power_dvd)
      then show ?thesis using j by (simp add: m_def k)
    next
      case False
      with q'le have q': "q' = 2 ^ 53" by simp
      then have mk: "m = 2 ^ (53 + k)" by (simp add: m_def k power_add)
      then have "m < 2 ^ 53 * 2 ^ Suc k" by (simp add: power_add)
      from ulp_of_power [OF m0 this] obtain j where j: "j \<le> Suc k" "ulp_of m 1 = 2 ^ j" by blast
      then have "j \<le> 53 + k" by simp
      then have "(2::int) ^ j dvd 2 ^ (53 + k)" by (rule le_imp_power_dvd)
      then show ?thesis using j mk by simp
    qed
    then have "ulp_of \<bar>sgn n * m\<bar> 1 dvd sgn n * m" by (simp add: absm)
    then have "roundToDouble (sgn n * m) = sgn n * m" by (rule roundToDouble_dvd)
    then show ?thesis by (simp add: r m_def)
  qed
qed

lemma roundToDouble_nonneg: "0 \<le> n \<Longrightarrow> 0 \<le> roundToDouble n"
proof -
  assume n: "0 \<le> n"
  have "0 < ulp_of \<bar>n\<bar> 1" by (simp add: ulp_of_pos)
  moreover have "0 \<le> \<bar>n\<bar> div ulp_of \<bar>n\<bar> 1"
    using calculation by (simp add: pos_imp_zdiv_nonneg_iff)
  ultimately show ?thesis
    using n by (simp add: roundToDouble_def Let_def sgn_if)
qed

section \<open>Properties of the git-tag strategy\<close>

lemma isDigit_value: "isDigit c \<Longrightarrow> (48::int) \<le> of_char c"
  by (auto simp: isDigit_def)

lemma foldl_decimal_nonneg:
  "0 \<le> a \<Longrightarrow> list_all isDigit ds \<Longrightarrow>
     0 \<le> foldl (\<lambda>a c. 10 * a + (of_char c - 48)) (a::int) ds"
proof (induction ds arbitrary: a)
  case Nil
  then show ?case by simp
next
  case (Cons c ds)
  from Cons.prems have "(48::int) \<le> of_char c" by (simp add: isDigit_value)
  with Cons.prems have "0 \<le> 10 * a + (of_char c - 48)" by simp
  with Cons.IH [of "10 * a + (of_char c - 48)"] Cons.prems show ?case by simp
qed

lemma parseInt10_nonneg: "list_all isDigit ds \<Longrightarrow> 0 \<le> parseInt10 ds"
  by (simp add: parseInt10_def decimal_value_def roundToDouble_nonneg foldl_decimal_nonneg)

lemma parseInt10_double: "roundToDouble (parseInt10 ds) = parseInt10 ds"
  by (simp add: parseInt10_def roundToDouble_idem)

lemma takeWhile_all: "list_all P (takeWhile P xs)"
  by (induction xs) auto

lemma match_here_digits:
  "match_here s = Some (d1, d2, d3) \<Longrightarrow>
     list_all isDigit d1 \<and> list_all isDigit d2 \<and> list_all isDigit d3"
  by (auto simp: match_here_def Let_def takeWhile_all split: if_splits list.splits char.splits bool.splits)

lemma match_first_digits:
  "match_first s = Some (d1, d2, d3) \<Longrightarrow>
     list_all isDigit d1 \<and> list_all isDigit d2 \<and> list_all isDigit d3"
proof (induction s)
  case Nil
  then show ?case by simp
next
  case (Cons c cs)
  then show ?case
    by (cases "match_here (c # cs)") (auto dest: match_here_digits)
qed

lemma parseVersionFromTag_parsed:
  assumes "parseVersionFromTag tag = Some v"
  shows "0 \<le> major v \<and> 0 \<le> minor v \<and> 0 \<le> patch v
       \<and> roundToDouble (patch v) = patch v \<and> tag \<noteq> []"
proof -
  from assms obtain d1 d2 d3 where m: "match_first tag = Some (d1, d2, d3)"
    and v: "v = \<lparr>major = parseInt10 d1, minor = parseInt10 d2, patch = parseInt10 d3\<rparr>"
    by (auto simp: parseVersionFromTag_def split: option.splits)
  from m have "tag \<noteq> []" by auto
  with match_first_digits [OF m] v show ?thesis
    by (simp add: parseInt10_nonneg parseInt10_double)
qed

text \<open>
  Claim C7, as stated, fails for a patch number that is not followed by its successor
  among the doubles. The tag \<open>v1.0.9007199254740992\<close> is parsed as the version with
  major 1 and patch \<open>2 ^ 53\<close>; \<^verbatim>\<open>patch + 1\<close> is \<open>2 ^ 53\<close> again, so the new version is the
  previous one, not \<open>(M, m, p + 1)\<close>, and the new build number is the previous one.
\<close>

theorem bumpFromGitTag_unsafe_counterexample:
  "parseVersionFromTag ''v1.0.9007199254740992''
     = Some \<lparr>major = 1, minor = 0, patch = 9007199254740992\<rparr>
   \<and> newVersion \<lparr>major = 1, minor = 0, patch = 9007199254740992\<rparr>
     = \<lparr>major = 1, minor = 0, patch = 9007199254740992\<rparr>
   \<and> bumpFromGitTag Android (Some ''v1.0.9007199254740992'')
     = \<lparr>previousValue = 9007199254750992, newValue = 9007199254750992,
        field = ''expo.android.versionCode'', version = Some ''1.0.9007199254740992''\<rparr>"
  by code_simp

text \<open>
  Claim C7, amended. Let \<open>(M, m, p)\<close> be the version that \<^verbatim>\<open>parseVersionFromTag\<close> reads
  from the latest tag (its components are not negative), and let
  \<open>(M + 1) * 10000 + m * 100 + p + 1\<close> be a safe integer (at most \<open>2 ^ 53 - 1\<close>), so that
  every number of the computation is one. Then the new version of the git-tag strategy
  is \<open>(M, m, p + 1)\<close> when \<open>M > 0\<close>, \<open>(1, m, p)\<close> when \<open>M = 0\<close> and \<open>(m, p)\<close> is not
  \<open>(0, 0)\<close>, and \<open>(1, 0, 0)\<close> when the version is \<open>(0, 0, 0)\<close>; the build number that
  the strategy returns is \<open>major * 10000 + minor * 100 + patch\<close> of the new version, as
  an integer; and the version string that it returns is made of the new version.
\<close>

theorem bumpFromGitTag_new_version:
  assumes "parseVersionFromTag tag = Some \<lparr>major = M, minor = m, patch = p\<rparr>"
    and "isSafeInteger ((M + 1) * 10000 + m * 100 + p + 1)"
  shows "let new = newVersion \<lparr>major = M, minor = m, patch = p\<rparr>;
             result = bumpFromGitTag pf (Some tag)
         in (0 < M \<or> M = 0)
          \<and> (0 < M \<longrightarrow> new = \<lparr>major = M, minor = m, patch = p + 1\<rparr>)
          \<and> (M = 0 \<and> (m, p) \<noteq> (0, 0) \<longrightarrow> new = \<lparr>major = 1, minor = m, patch = p\<rparr>)
          \<and> (M = 0 \<and> (m, p) = (0, 0) \<longrightarrow> new = \<lparr>major = 1, minor = 0, patch = 0\<rparr>)
          \<and> newValue result = major new * 10000 + minor new * 100 + patch new
          \<and> version result = Some (versionString new)"
proof -
  let ?prev = "\<lparr>major = M, minor = m, patch = p\<rparr>"
  from parseVersionFromTag_parsed [OF assms(1)]
  have nn: "0 \<le> M" "0 \<le> m" "0 \<le> p" and dbl: "roundToDouble p = p" and tag: "tag \<noteq> []"
    by simp_all
  have prev: "previousVersion (Some tag) = ?prev"
    using assms(1) tag by (simp add: previousVersion_def)
  have res: "bumpFromGitTag pf (Some tag) =
      \<lparr>previousValue = buildNumber_of ?prev, newValue = buildNumber_of (newVersion ?prev),
       field = (case pf of Ios \<Rightarrow> ''expo.ios.buildNumber''
                         | Android \<Rightarrow> ''expo.android.versionCode''),
       version = Some (versionString (newVersion ?prev))\<rparr>"
    by (simp add: bumpFromGitTag_def prev Let_def)
  from assms(2) nn have b: "(M + 1) * 10000 + m * 100 + p + 1 \<le> 2 ^ 53 - 1"
    by (simp add: isSafeInteger_def)
  have p1: "js_add p 1 = p + 1"
    using b nn by (intro js_add_safe) (simp add: isSafeInteger_def)
  have c1: "0 < M \<Longrightarrow> newVersion ?prev = \<lparr>major = M, minor = m, patch = p + 1\<rparr>"
    by (simp add: newVersion_def Let_def p1)
  have c2: "M = 0 \<Longrightarrow> (m, p) \<noteq> (0, 0) \<Longrightarrow> newVersion ?prev = \<lparr>major = 1, minor = m, patch = p\<rparr>"
    using dbl by (auto simp: newVersion_def Let_def js_add_def)
  have c3: "M = 0 \<Longrightarrow> (m, p) = (0, 0) \<Longrightarrow> newVersion ?prev = \<lparr>major = 1, minor = 0, patch = 0\<rparr>"
    by (simp add: newVersion_def Let_def)
  define new where "new = newVersion ?prev"
  have nb: "0 \<le> major new" "0 \<le> minor new" "0 \<le> patch new"
    "major new \<le> M + 1" "minor new \<le> m" "patch new \<le> p + 1"
    using nn p1 dbl by (auto simp: new_def newVersion_def Let_def js_add_def)
  have m1: "js_mul (major new) 10000 = major new * 10000"
    using b nn nb by (intro js_mul_safe) (simp add: isSafeInteger_def)
  have m2: "js_mul (minor new) 100 = minor new * 100"
    using b nn nb by (intro js_mul_safe) (simp add: isSafeInteger_def)
  have a1: "js_add (major new * 10000) (minor new * 100) = major new * 10000 + minor new * 100"
    using b nn nb by (intro js_add_safe) (simp add: isSafeInteger_def)
  have a2: "js_add (major new * 10000 + minor new * 100) (patch new)
            = major new * 10000 + minor new * 100 + patch new"
    using b nn nb by (intro js_add_safe) (simp add: isSafeInteger_def)
  have bn: "buildNumber_of (newVersion ?prev) =
          major (newVersion ?prev) * 10000 + minor (newVersion ?prev) * 100
          + patch (newVersion ?prev)"
    using m1 m2 a1 a2 by (simp add: buildNumber_of_def new_def)
  show ?thesis
    using nn c1 c2 c3 bn
    by (auto simp: Let_def res)
qed

text \<open>The tag \<open>v1.2.3\<close>: the new version is 1.2.4 and the build number 10204.\<close>

theorem bumpFromGitTag_new_version_witness:
  "parseVersionFromTag ''v1.2.3'' = Some \<lparr>major = 1, minor = 2, patch = 3\<rparr>
   \<and> isSafeInteger ((1 + 1) * 10000 + 2 * 100 + 3 + 1)
   \<and> newVersion \<lparr>major = 1, minor = 2, patch = 3\<rparr> = \<lparr>major = 1, minor = 2, patch = 4\<rparr>
   \<and> newValue (bumpFromGitTag Ios (Some ''v1.2.3'')) = 10204
   \<and> version (bumpFromGitTag Ios (Some ''v1.2.3'')) = Some ''1.2.4''"
proof -
  have p: "parseVersionFromTag ''v1.2.3'' = Some \<lparr>major = 1, minor = 2, patch = 3\<rparr>"
    by code_simp
  have s: "isSafeInteger ((1 + 1) * 10000 + 2 * 100 + 3 + 1)"
    by (simp add: isSafeInteger_def)
  have v: "versionString \<lparr>major = 1, minor = 2, patch = 4\<rparr> = ''1.2.4''"
    by code_simp
  have pos: "(0::int) < 1" by simp
  note t = bumpFromGitTag_new_version [OF p s, of Ios, unfolded Let_def]
  from t pos have "newVersion \<lparr>major = 1, minor = 2, patch = 3\<rparr>
                  = \<lparr>major = 1, minor = 2, patch = 3 + 1\<rparr>" by blast
  then have n: "newVersion \<lparr>major = 1, minor = 2, patch = 3\<rparr>
                  = \<lparr>major = 1, minor = 2, patch = 4\<rparr>" by simp
  from t have "newValue (bumpFromGitTag Ios (Some ''v1.2.3'')) =
      major (newVersion \<lparr>major = 1, minor = 2, patch = 3\<rparr>) * 10000
      + minor (newVersion \<lparr>major = 1, minor = 2, patch = 3\<rparr>) * 100
      + patch (newVersion \<lparr>major = 1, minor = 2, patch = 3\<rparr>)" by blast
  then have nv: "newValue (bumpFromGitTag Ios (Some ''v1.2.3'')) = 10204"
    by (simp add: n)
  from t have "version (bumpFromGitTag Ios (Some ''v1.2.3''))
      = Some (versionString (newVersion \<lparr>major = 1, minor = 2, patch = 3\<rparr>))" by blast
  then have ver: "version (bumpFromGitTag Ios (Some ''v1.2.3'')) = Some ''1.2.4''"
    by (simp add: n v)
  show ?thesis
    using p s nv ver by (simp add: n)
qed

section \<open>Properties of the conversions between numbers and strings\<close>

text \<open>
  \<open>js_Number\<close> reads a safe integer back from the string that \<^verbatim>\<open>String\<close> makes of it,
  and from the number itself: from either form in which the app-json strategy stores a
  build number.
\<close>

lemma digit_char:
  assumes "0 \<le> n" "n < 10"
  shows "isDigit (''0123456789'' ! nat n) \<and> of_char (''0123456789'' ! nat n) - 48 = (n::int)"
proof -
  from assms have "n \<in> set [0, 1, 2, 3, 4, 5, 6, 7, 8, 9]" by simp presburger
  then show ?thesis by (auto simp: isDigit_def)
qed

lemma decimal_value_snoc:
  "decimal_value (ds @ [c]) = 10 * decimal_value ds + (of_char c - 48)"
  by (simp add: decimal_value_def)

lemma decimal_digits_value:
  "0 \<le> n \<Longrightarrow> decimal_value (decimal_digits n) = n \<and> list_all isDigit (decimal_digits n)
     \<and> decimal_digits n \<noteq> []"
proof (induction n rule: decimal_digits.induct)
  case (1 n)
  show ?case
  proof (cases "n < 10")
    case True
    with "1.prems" digit_char [of n] show ?thesis
      by (simp add: decimal_digits.simps [of n] decimal_value_def)
  next
    case False
    with "1.prems" have "0 \<le> n div 10" by simp
    with "1.IH" False have ih: "decimal_value (decimal_digits (n div 10)) = n div 10"
      "list_all isDigit (decimal_digits (n div 10))" by simp_all
    have "0 \<le> n mod 10" "n mod 10 < 10" by simp_all
    from digit_char [OF this] ih False show ?thesis
      by (simp add: decimal_digits.simps [of n] decimal_value_snoc)
  qed
qed

lemma digit_not_space: "isDigit c \<Longrightarrow> \<not> isWhiteSpace c"
  by (auto simp: isDigit_def isWhiteSpace_def)

lemma dropWhile_id: "xs \<noteq> [] \<Longrightarrow> \<not> P (hd xs) \<Longrightarrow> dropWhile P xs = xs"
  by (cases xs) auto

lemma trim_id:
  assumes "s \<noteq> []" "\<not> isWhiteSpace (hd s)" "\<not> isWhiteSpace (last s)"
  shows "trim s = s"
proof -
  have "dropWhile isWhiteSpace s = s" using assms by (simp add: dropWhile_id)
  moreover have "dropWhile isWhiteSpace (rev s) = rev s"
    using assms by (simp add: dropWhile_id hd_rev)
  ultimately show ?thesis by (simp add: trim_def)
qed

lemma to_number_safe: "isSafeInteger n \<Longrightarrow> to_number n = Finite n"
proof -
  assume "isSafeInteger n"
  then have b: "\<bar>n\<bar> < 2 ^ 53" by (simp add: isSafeInteger_def)
  then have r: "roundToDouble n = n" by (rule roundToDouble_exact)
  have "(2::int) ^ 53 \<le> 2 ^ 1024" by (rule power_increasing) simp_all
  with b have "\<not> 2 ^ 1024 \<le> \<bar>n\<bar>" by linarith
  with r show ?thesis by (simp add: to_number_def Let_def)
qed

lemma StringToNumber_digits:
  assumes "ds \<noteq> []" "list_all isDigit ds"
  shows "StringToNumber ds = to_number (decimal_value ds)"
proof -
  from assms have h: "isDigit (hd ds)" and l: "isDigit (last ds)"
    by (auto simp: list_all_iff)
  then have t: "trim ds = ds" using assms by (simp add: trim_id digit_not_space)
  from h have "hd ds \<noteq> CHR ''-''" "hd ds \<noteq> CHR ''+''" "hd ds \<noteq> CHR ''I''"
    by (auto simp: isDigit_def)
  then have "hd ds \<noteq> CHR ''-''" "hd ds \<noteq> CHR ''+''"
    "ds \<notin> set [''Infinity'', ''+Infinity'', ''-Infinity'']" by auto
  with assms show ?thesis
    by (simp add: StringToNumber_def t decimal_number_def Let_def)
qed

lemma StringToNumber_minus_digits:
  assumes "ds \<noteq> []" "list_all isDigit ds" "to_number (decimal_value ds) = Finite n"
  shows "StringToNumber (CHR ''-'' # ds) = Finite (- n)"
proof -
  from assms have "isDigit (last ds)" "isDigit (hd ds)" by (auto simp: list_all_iff)
  then have l: "\<not> isWhiteSpace (last ds)" and h: "hd ds \<noteq> CHR ''I''"
    by (auto simp: digit_not_space isDigit_def)
  have "\<not> isWhiteSpace (CHR ''-'')" by (simp add: isWhiteSpace_def)
  with l assms have t: "trim (CHR ''-'' # ds) = CHR ''-'' # ds"
    by (intro trim_id) simp_all
  from h have "CHR ''-'' # ds \<notin> set [''Infinity'', ''+Infinity'', ''-Infinity'']" by auto
  with assms show ?thesis
    by (simp add: StringToNumber_def t decimal_number_def Let_def)
qed

lemma js_Number_js_String:
  assumes "isSafeInteger n"
  shows "js_Number (JStr (js_String n)) = Finite n"
proof (cases "n < 0")
  case False
  then have n: "0 \<le> n" by simp
  from assms have "to_number n = Finite n" by (rule to_number_safe)
  with decimal_digits_value [OF n] StringToNumber_digits [of "decimal_digits n"] False
  show ?thesis by (simp add: js_Number_def js_String_def)
next
  case True
  then have n: "0 \<le> - n" by simp
  from assms have "isSafeInteger (- n)" by (simp add: isSafeInteger_def)
  then have "to_number (- n) = Finite (- n)" by (rule to_number_safe)
  with decimal_digits_value [OF n] StringToNumber_minus_digits [of "decimal_digits (- n)" "- n"] True
  show ?thesis by (simp add: js_Number_def js_String_def)
qed

lemma js_Number_encode: "isSafeInteger n \<Longrightarrow> js_Number (encode pf n) = Finite n"
  by (cases pf) (simp_all add: encode_def js_Number_js_String, simp add: js_Number_def)

section \<open>Properties of setNestedValue\<close>

text \<open>
  Writing under a path that exists stores the value there (\<open>set_keys_get\<close>), leaves the
  value under every path that is neither above nor below the written one as it was
  (\<open>set_keys_other\<close>), and keeps the keys of every object above it, in their order
  (\<open>set_keys_keys\<close>).
\<close>

lemma split_fields:
  "splitOn CHR ''.'' ''expo.ios.buildNumber'' = [''expo'', ''ios'', ''buildNumber'']"
  "splitOn CHR ''.'' ''expo.buildNumber'' = [''expo'', ''buildNumber'']"
  "splitOn CHR ''.'' ''expo.android.versionCode'' = [''expo'', ''android'', ''versionCode'']"
  "splitOn CHR ''.'' ''expo.versionCode'' = [''expo'', ''versionCode'']"
  by simp_all

lemma select_field_cases:
  "select_field pf expo = (fld, raw) \<Longrightarrow>
     fld \<in> {''expo.ios.buildNumber'', ''expo.buildNumber'',
             ''expo.android.versionCode'', ''expo.versionCode''}"
  by (auto simp: select_field_def split: platform.splits option.splits)

lemma get_path_select:
  assumes "select_field pf (expo_of json) = (fld, Some raw)"
  shows "get_path json (splitOn CHR ''.'' fld) = Some raw"
proof (cases json)
  case (JObj kvs)
  show ?thesis
  proof (cases "map_of kvs ''expo''")
    case None
    with JObj assms show ?thesis
      by (auto simp: select_field_def expo_of_def js_prop_def optional_prop_def
               split: platform.splits option.splits)
  next
    case (Some e)
    with JObj assms show ?thesis
      by (cases e)
         (auto simp: select_field_def expo_of_def js_prop_def optional_prop_def split_fields
               split: platform.splits option.splits json.splits)
  qed
qed (use assms in \<open>auto simp: select_field_def expo_of_def js_prop_def optional_prop_def
               split: platform.splits option.splits\<close>)

lemma get_path_nonobject: "ks \<noteq> [] \<Longrightarrow> (\<And>kvs. j \<noteq> JObj kvs) \<Longrightarrow> get_path j ks = None"
  by (cases j; cases ks) auto

lemma set_keys_get:
  "get_path j ks = Some old \<Longrightarrow> ks \<noteq> [] \<Longrightarrow> get_path (set_keys j ks v) ks = Some v"
proof (induction j ks v rule: set_keys.induct)
  case (3 kvs k k' ks v)
  from "3.prems" obtain c where c: "map_of kvs k = Some c" "get_path c (k' # ks) = Some old"
    by (auto split: option.splits)
  then obtain cs where cs: "c = JObj cs" by (cases c) auto
  with c "3.IH" have "get_path (set_keys (JObj cs) (k' # ks) v) (k' # ks) = Some v" by simp
  with c cs show ?case by (simp add: update_conv')
qed (auto simp: update_conv' neq_Nil_conv)

lemma set_keys_other:
  "\<not> prefix p ks \<Longrightarrow> \<not> prefix ks p \<Longrightarrow> get_path (set_keys j ks v) p = get_path j p"
proof (induction j ks v arbitrary: p rule: set_keys.induct)
  case (1 kvs v)
  then show ?case by simp
next
  case (2 kvs k v)
  then show ?case by (cases p) (auto simp: update_conv')
next
  case (3 kvs k k' ks v)
  show ?case
  proof (cases p)
    case Nil
    with "3.prems" show ?thesis by simp
  next
    case (Cons h ps)
    show ?thesis
    proof (cases "h = k")
      case False
      with Cons show ?thesis by (simp add: update_conv')
    next
      case True
      with Cons "3.prems" have np: "\<not> prefix ps (k' # ks)" "\<not> prefix (k' # ks) ps" by simp_all
      then have ne: "ps \<noteq> []" by auto
      let ?child = "case map_of kvs k of Some (JObj c) \<Rightarrow> JObj c | Some (JArr xs) \<Rightarrow> JArr xs
                    | _ \<Rightarrow> JObj []"
      have ih: "get_path (set_keys ?child (k' # ks) v) ps = get_path ?child ps"
        using np by (rule "3.IH")
      have "get_path ?child ps = (case map_of kvs k of None \<Rightarrow> None | Some c \<Rightarrow> get_path c ps)"
        using ne by (cases ps) (auto split: option.splits json.splits)
      with ih Cons True show ?thesis by (simp add: update_conv')
    qed
  qed
qed simp_all

lemma set_keys_keys:
  "get_path j ks = Some old \<Longrightarrow> strict_prefix p ks \<Longrightarrow>
     map_option object_keys (get_path (set_keys j ks v) p) = map_option object_keys (get_path j p)"
proof (induction j ks v arbitrary: p rule: set_keys.induct)
  case (1 kvs v)
  then show ?case by simp
next
  case (2 kvs k v)
  then have p: "p = []" by (cases p) auto
  from "2.prems" have "k \<in> fst ` set kvs"
    by (auto split: option.splits dest: map_of_SomeD intro: rev_image_eqI)
  with p show ?case by (simp add: object_keys_def update_keys)
next
  case (3 kvs k k' ks v)
  from "3.prems" obtain c where c: "map_of kvs k = Some c" "get_path c (k' # ks) = Some old"
    by (auto split: option.splits)
  then obtain cs where cs: "c = JObj cs" by (cases c) auto
  from c have kin: "k \<in> fst ` set kvs" by (auto dest: map_of_SomeD intro: rev_image_eqI)
  show ?case
  proof (cases p)
    case Nil
    with kin show ?thesis by (simp add: object_keys_def update_keys)
  next
    case (Cons h ps)
    with "3.prems" have h: "h = k" and sp: "strict_prefix ps (k' # ks)" by auto
    from c cs have "get_path (JObj cs) (k' # ks) = Some old" by simp
    from "3.IH" [of ps] c cs sp
    have "map_option object_keys (get_path (set_keys (JObj cs) (k' # ks) v) ps)
          = map_option object_keys (get_path (JObj cs) ps)" by simp
    with Cons h c cs show ?thesis by (simp add: update_conv')
  qed
qed (auto simp: neq_Nil_conv)


section \<open>Properties of the app-json strategy\<close>

lemma optional_prop_Some:
  "optional_prop x key = Some v \<longleftrightarrow> (\<exists>kvs. x = Some (JObj kvs) \<and> map_of kvs key = Some v)"
  by (cases x; simp add: optional_prop_def js_prop_def split: json.splits)

lemma select_expo_object:
  assumes "select_field pf (expo_of json) = (fld, Some raw)"
  shows "\<exists>kvs es. json = JObj kvs \<and> map_of kvs ''expo'' = Some (JObj es)
           \<and> expo_of json = JObj es"
proof -
  have empty: "select_field pf (JObj []) = (fld, Some raw) \<Longrightarrow> False"
    by (cases pf) (simp_all add: select_field_def js_prop_def optional_prop_def)
  have nonobj: "\<And>e. (\<And>es. e \<noteq> JObj es) \<Longrightarrow> select_field pf e = (fld, Some raw) \<Longrightarrow> False"
  proof -
    fix e assume "\<And>es. e \<noteq> JObj es" and s: "select_field pf e = (fld, Some raw)"
    then have "\<And>k. js_prop e k = None" by (cases e) (auto simp: js_prop_def)
    with s show False
      by (cases pf) (simp_all add: select_field_def optional_prop_def)
  qed
  show ?thesis
  proof (cases json)
    case (JObj kvs)
    show ?thesis
    proof (cases "map_of kvs ''expo''")
      case None
      with JObj have "expo_of json = JObj []" by (simp add: expo_of_def js_prop_def)
      with assms empty show ?thesis by simp
    next
      case (Some e)
      show ?thesis
      proof (cases e)
        case (JObj es)
        with Some \<open>json = JObj kvs\<close> show ?thesis by (simp add: expo_of_def js_prop_def)
      next
        case JNull
        with Some \<open>json = JObj kvs\<close> have "expo_of json = JObj []"
          by (simp add: expo_of_def js_prop_def)
        with assms empty show ?thesis by simp
      qed (use Some \<open>json = JObj kvs\<close> assms nonobj [of e] in
            \<open>simp_all add: expo_of_def js_prop_def\<close>)
    qed
  qed (use assms empty in \<open>simp_all add: expo_of_def js_prop_def\<close>)
qed

lemma select_field_written_expo:
  assumes expo: "map_of kvs ''expo'' = Some (JObj es)"
    and sel: "select_field pf (JObj es) = (fld, Some raw)"
  shows "\<exists>es'. set_keys (JObj kvs) (splitOn CHR ''.'' fld) v
                = JObj (AList.update ''expo'' (JObj es') kvs)
               \<and> select_field pf (JObj es') = (fld, Some v)"
proof (cases pf)
  case Ios
  show ?thesis
  proof (cases "optional_prop (map_of es ''ios'') ''buildNumber''")
    case (Some r)
    then obtain os where os: "map_of es ''ios'' = Some (JObj os)"
      by (auto simp: optional_prop_Some)
    from Some Ios sel have fld: "fld = ''expo.ios.buildNumber''"
      by (simp add: select_field_def js_prop_def)
    let ?es' = "AList.update ''ios'' (JObj (AList.update ''buildNumber'' v os)) es"
    have "set_keys (JObj kvs) (splitOn CHR ''.'' fld) v
                = JObj (AList.update ''expo'' (JObj ?es') kvs)"
      by (simp add: fld expo os)
    moreover have "select_field pf (JObj ?es') = (fld, Some v)"
      by (simp add: Ios fld select_field_def js_prop_def optional_prop_def update_conv')
    ultimately show ?thesis by blast
  next
    case None
    with Ios sel have fld: "fld = ''expo.buildNumber''"
      by (auto simp: select_field_def js_prop_def split: option.splits)
    let ?es' = "AList.update ''buildNumber'' v es"
    have "set_keys (JObj kvs) (splitOn CHR ''.'' fld) v
                = JObj (AList.update ''expo'' (JObj ?es') kvs)"
      by (simp add: fld expo)
    moreover have "map_of ?es' ''ios'' = map_of es ''ios''" by (simp add: update_conv')
    then have "select_field pf (JObj ?es') = (fld, Some v)"
      using None by (simp add: Ios fld select_field_def js_prop_def update_conv')
    ultimately show ?thesis by blast
  qed
next
  case Android
  show ?thesis
  proof (cases "optional_prop (map_of es ''android'') ''versionCode''")
    case (Some r)
    then obtain os where os: "map_of es ''android'' = Some (JObj os)"
      by (auto simp: optional_prop_Some)
    from Some Android sel have fld: "fld = ''expo.android.versionCode''"
      by (simp add: select_field_def js_prop_def)
    let ?es' = "AList.update ''android'' (JObj (AList.update ''versionCode'' v os)) es"
    have "set_keys (JObj kvs) (splitOn CHR ''.'' fld) v
                = JObj (AList.update ''expo'' (JObj ?es') kvs)"
      by (simp add: fld expo os)
    moreover have "select_field pf (JObj ?es') = (fld, Some v)"
      by (simp add: Android fld select_field_def js_prop_def optional_prop_def update_conv')
    ultimately show ?thesis by blast
  next
    case None
    with Android sel have fld: "fld = ''expo.versionCode''"
      by (auto simp: select_field_def js_prop_def split: option.splits)
    let ?es' = "AList.update ''versionCode'' v es"
    have "set_keys (JObj kvs) (splitOn CHR ''.'' fld) v
                = JObj (AList.update ''expo'' (JObj ?es') kvs)"
      by (simp add: fld expo)
    moreover have "map_of ?es' ''android'' = map_of es ''android''" by (simp add: update_conv')
    then have "select_field pf (JObj ?es') = (fld, Some v)"
      using None by (simp add: Android fld select_field_def js_prop_def update_conv')
    ultimately show ?thesis by blast
  qed
qed

lemma select_field_written:
  assumes "select_field pf (expo_of json) = (fld, Some raw)"
  shows "select_field pf (expo_of (set_keys json (splitOn CHR ''.'' fld) v)) = (fld, Some v)"
proof -
  from select_expo_object [OF assms] obtain kvs es where
    j: "json = JObj kvs" and e: "map_of kvs ''expo'' = Some (JObj es)"
    and x: "expo_of json = JObj es" by blast
  from assms x have "select_field pf (JObj es) = (fld, Some raw)" by simp
  from select_field_written_expo [OF e this, of v] obtain es' where
    w: "set_keys (JObj kvs) (splitOn CHR ''.'' fld) v = JObj (AList.update ''expo'' (JObj es') kvs)"
    and s: "select_field pf (JObj es') = (fld, Some v)" by blast
  have "expo_of (JObj (AList.update ''expo'' (JObj es') kvs)) = JObj es'"
    by (simp add: expo_of_def js_prop_def update_conv')
  with j w s show ?thesis by simp
qed

lemma bumpFromAppJson_numeric:
  assumes "select_field pf (expo_of json) = (fld, Some raw)" and "Number raw = Finite N"
  shows "bumpFromAppJson Number pf json =
           Inr (set_keys json (splitOn CHR ''.'' fld) (encode pf (js_add N 1)),
                \<lparr>previousValue = N, newValue = js_add N 1, field = fld, version = None\<rparr>)"
proof -
  from select_expo_object [OF assms(1)] obtain kvs where j: "json = JObj kvs" by blast
  with assms show ?thesis
    by (simp add: bumpFromAppJson_def previous_value_def setNestedValue_def Let_def)
qed

text \<open>
  Claim C5, as stated, fails for a number that is not followed by its successor among
  the doubles. For the Android version code 9007199254740992 (\<open>2 ^ 53\<close>), a numeric
  value, \<^verbatim>\<open>previousValue + 1\<close> is 9007199254740992 again: the strategy returns the value
  it read, writes the file back as it was, and a second run returns the same value a
  second time.
\<close>

theorem bumpFromAppJson_unsafe_counterexample:
  "bumpFromAppJson js_Number Android
     (JObj [(''expo'', JObj [(''android'', JObj [(''versionCode'', JNum 9007199254740992)])])])
   = Inr (JObj [(''expo'', JObj [(''android'', JObj [(''versionCode'', JNum 9007199254740992)])])],
          \<lparr>previousValue = 9007199254740992, newValue = 9007199254740992,
           field = ''expo.android.versionCode'', version = None\<rparr>)"
  by code_simp

text \<open>
  Claim C5, amended. Let the platform's build-number field (the field \<open>fld\<close> that the
  strategy selects) hold a value \<open>raw\<close> that \<^verbatim>\<open>Number\<close> reads as \<open>N\<close>, where \<open>N\<close> and
  \<open>N + 2\<close> are safe integers (of absolute value at most \<open>2 ^ 53 - 1\<close>), and let
  \<^verbatim>\<open>Number\<close> read a safe integer back from the form in which the platform stores it (as
  JavaScript's does, and \<open>js_Number\<close>). Then one run returns \<open>N\<close> and \<open>N + 1\<close> and
  writes a file in which the strategy selects the same field, which now holds \<open>N + 1\<close>,
  as a string for iOS and as a number for Android, and reads as \<open>N + 1\<close>; the value
  under every path that is neither above nor below the field is unchanged, and so are the
  keys of the objects above it; and a second run, on the written file, returns \<open>N + 1\<close>
  and \<open>N + 2\<close>.
\<close>

theorem bumpFromAppJson_increments:
  assumes field: "select_field pf (expo_of json) = (fld, Some raw)"
    and numeric: "Number raw = Finite N"
    and safe: "isSafeInteger N" "isSafeInteger (N + 2)"
    and reads: "\<And>n. isSafeInteger n \<Longrightarrow> Number (encode pf n) = Finite n"
  shows "\<exists>written written'.
      bumpFromAppJson Number pf json =
        Inr (written, \<lparr>previousValue = N, newValue = N + 1, field = fld, version = None\<rparr>)
    \<and> select_field pf (expo_of written) = (fld, Some (encode pf (N + 1)))
    \<and> Number (encode pf (N + 1)) = Finite (N + 1)
    \<and> get_path written (splitOn CHR ''.'' fld) =
          Some (case pf of Ios \<Rightarrow> JStr (js_String (N + 1)) | Android \<Rightarrow> JNum (N + 1))
    \<and> (\<forall>p. \<not> prefix p (splitOn CHR ''.'' fld) \<and> \<not> prefix (splitOn CHR ''.'' fld) p \<longrightarrow>
            get_path written p = get_path json p)
    \<and> (\<forall>p. strict_prefix p (splitOn CHR ''.'' fld) \<longrightarrow>
            map_option object_keys (get_path written p) = map_option object_keys (get_path json p))
    \<and> bumpFromAppJson Number pf written =
        Inr (written', \<lparr>previousValue = N + 1, newValue = N + 2, field = fld, version = None\<rparr>)
    \<and> select_field pf (expo_of written') = (fld, Some (encode pf (N + 2)))"
proof -
  let ?ks = "splitOn CHR ''.'' fld"
  from safe have s1: "isSafeInteger (N + 1)" by (simp add: isSafeInteger_def)
  from s1 have a1: "js_add N 1 = N + 1" by (rule js_add_safe)
  from safe have a2: "js_add (N + 1) 1 = N + 2"
    by (simp add: js_add_def isSafeInteger_def roundToDouble_exact)
  define written where "written = set_keys json ?ks (encode pf (N + 1))"
  define written' where "written' = set_keys written ?ks (encode pf (N + 2))"
  have path: "get_path json ?ks = Some raw" using field by (rule get_path_select)
  have ne: "?ks \<noteq> []" using select_field_cases [OF field] by (auto simp: split_fields)
  have run1: "bumpFromAppJson Number pf json =
        Inr (written, \<lparr>previousValue = N, newValue = N + 1, field = fld, version = None\<rparr>)"
    using bumpFromAppJson_numeric [where Number = Number, OF field numeric] by (simp add: a1 written_def)
  have sel1: "select_field pf (expo_of written) = (fld, Some (encode pf (N + 1)))"
    unfolding written_def using field by (rule select_field_written)
  have rd1: "Number (encode pf (N + 1)) = Finite (N + 1)" using s1 by (rule reads)
  have get1: "get_path written ?ks = Some (encode pf (N + 1))"
    unfolding written_def using path ne by (rule set_keys_get)
  have other: "\<forall>p. \<not> prefix p ?ks \<and> \<not> prefix ?ks p \<longrightarrow> get_path written p = get_path json p"
    by (simp add: written_def set_keys_other)
  have keys: "\<forall>p. strict_prefix p ?ks \<longrightarrow>
      map_option object_keys (get_path written p) = map_option object_keys (get_path json p)"
    using path by (simp add: written_def set_keys_keys)
  have run2: "bumpFromAppJson Number pf written =
        Inr (written', \<lparr>previousValue = N + 1, newValue = N + 2, field = fld, version = None\<rparr>)"
    using bumpFromAppJson_numeric [where Number = Number, OF sel1 rd1] by (simp add: a2 written'_def)
  have sel2: "select_field pf (expo_of written') = (fld, Some (encode pf (N + 2)))"
    unfolding written'_def using sel1 by (rule select_field_written)
  have enc: "encode pf (N + 1) = (case pf of Ios \<Rightarrow> JStr (js_String (N + 1)) | Android \<Rightarrow> JNum (N + 1))"
    by (simp add: encode_def)
  show ?thesis
    using run1 sel1 rd1 get1 other keys run2 sel2 unfolding enc by blast
qed

text \<open>
  The iOS build number \<open>41\<close>, a string, beside a key \<open>name\<close>: two runs return 42 and
  then 43, and the name is unchanged.
\<close>

theorem bumpFromAppJson_increments_witness:
  "\<exists>written written'.
     bumpFromAppJson js_Number Ios
       (JObj [(''expo'', JObj [(''name'', JStr ''MyApp''),
                               (''ios'', JObj [(''buildNumber'', JStr ''41'')])])])
       = Inr (written, \<lparr>previousValue = 41, newValue = 42, field = ''expo.ios.buildNumber'',
                        version = None\<rparr>)
   \<and> get_path written [''expo'', ''ios'', ''buildNumber''] = Some (JStr ''42'')
   \<and> get_path written [''expo'', ''name''] = Some (JStr ''MyApp'')
   \<and> bumpFromAppJson js_Number Ios written
       = Inr (written', \<lparr>previousValue = 42, newValue = 43, field = ''expo.ios.buildNumber'',
                         version = None\<rparr>)"
proof -
  let ?json = "JObj [(''expo'', JObj [(''name'', JStr ''MyApp''),
                               (''ios'', JObj [(''buildNumber'', JStr ''41'')])])]"
  have f: "select_field Ios (expo_of ?json) = (''expo.ios.buildNumber'', Some (JStr ''41''))"
    by (simp add: select_field_def expo_of_def js_prop_def optional_prop_def)
  have n: "js_Number (JStr ''41'') = Finite 41" by code_simp
  have s: "isSafeInteger 41" "isSafeInteger (41 + 2)" by (simp_all add: isSafeInteger_def)
  have str: "js_String 42 = ''42''" by code_simp
  have pth: "get_path ?json [''expo'', ''name''] = Some (JStr ''MyApp'')" by simp
  have np: "\<not> prefix [''expo'', ''name''] [''expo'', ''ios'', ''buildNumber'']"
    "\<not> prefix [''expo'', ''ios'', ''buildNumber''] [''expo'', ''name'']" by simp_all
  from bumpFromAppJson_increments [where Number = js_Number, OF f n s js_Number_encode]
  obtain written written' where
    r1: "bumpFromAppJson js_Number Ios ?json =
        Inr (written, \<lparr>previousValue = 41, newValue = 41 + 1, field = ''expo.ios.buildNumber'',
                        version = None\<rparr>)"
    and g: "get_path written (splitOn CHR ''.'' ''expo.ios.buildNumber'') =
          Some (case Ios of Ios \<Rightarrow> JStr (js_String (41 + 1)) | Android \<Rightarrow> JNum (41 + 1))"
    and o: "\<forall>p. \<not> prefix p (splitOn CHR ''.'' ''expo.ios.buildNumber'')
              \<and> \<not> prefix (splitOn CHR ''.'' ''expo.ios.buildNumber'') p \<longrightarrow>
            get_path written p = get_path ?json p"
    and r2: "bumpFromAppJson js_Number Ios written =
        Inr (written', \<lparr>previousValue = 41 + 1, newValue = 41 + 2,
                         field = ''expo.ios.buildNumber'', version = None\<rparr>)"
    by blast
  from g have g': "get_path written [''expo'', ''ios'', ''buildNumber''] = Some (JStr ''42'')"
    by (simp add: split_fields str)
  from o np have "get_path written [''expo'', ''name''] = get_path ?json [''expo'', ''name'']"
    by (simp add: split_fields)
  with pth have o': "get_path written [''expo'', ''name''] = Some (JStr ''MyApp'')" by simp
  from r1 r2 g' o' show ?thesis by auto
qed




end
